theory Spec2Isabelle
  imports Complex_Main "HOL-Library.AList"
begin

section \<open>External drift kriging: the \<open>geokrig\<close> pipeline of \<open>Kriging.py\<close>\<close>

text \<open>
  \<open>geokrig\<close> is one Python function that drives three libraries: a dataframe library
  (row selection, column access, column assignment, transposition), a geometry library
  (centroids) and a geostatistics library (normalizer, variogram estimation, covariance
  fitting, kriging, conditional simulation, seed generation). The table operations and
  the control flow are modelled here in full; the numerical library is a record of
  functions (\<open>backend\<close>) that the pipeline receives, each returning either an error or
  its result. Floats are real numbers, NaN is \<open>None\<close>.
\<close>

subsection \<open>Cells, errors, sequencing\<close>

type_synonym cell = "real option"

text \<open>
  \<open>KeyError\<close> and \<open>ValueError\<close> are what the table and array operations of the source
  raise themselves. The other four are the error kinds of the specification (section 7);
  the source neither defines nor raises them, so in this model only a backend function
  can return one.
\<close>

datatype error =
    KeyError string
  | ValueError
  | ConfigurationError
  | NumericError
  | FitError
  | SingularSystemError

definition ebind :: "error + 'a \<Rightarrow> ('a \<Rightarrow> error + 'b) \<Rightarrow> error + 'b" where
  "ebind m f = (case m of Inl e \<Rightarrow> Inl e | Inr x \<Rightarrow> f x)"

text \<open>A list comprehension whose body may raise: the first exception ends it.\<close>

fun emap :: "('a \<Rightarrow> error + 'b) \<Rightarrow> 'a list \<Rightarrow> error + 'b list" where
  "emap f [] = Inr []"
| "emap f (x # xs) = ebind (f x) (\<lambda>y. ebind (emap f xs) (\<lambda>ys. Inr (y # ys)))"

subsection \<open>Formatting \<open>f"f{i}"\<close>\<close>

definition digit_char :: "nat \<Rightarrow> char" where
  "digit_char d = ''0123456789'' ! d"

text \<open>\<open>str(i)\<close> for the non-negative integers that \<open>range\<close> produces.\<close>

function str_nat :: "nat \<Rightarrow> string" where
  "str_nat n = (if n < 10 then [digit_char n] else str_nat (n div 10) @ [digit_char (n mod 10)])"
  by pat_completeness auto
termination
  by (relation "measure id") auto

declare str_nat.simps [simp del]

definition field_name :: "nat \<Rightarrow> string" where
  "field_name i = ''f'' @ str_nat i"

definition dict_key :: "nat \<Rightarrow> string" where
  "dict_key i = ''field_'' @ str_nat i"

subsection \<open>The spatial table (a GeoDataFrame)\<close>

text \<open>
  A table is its geometry column and its other columns in order, each a list of cells by
  row position. The row index plays no part in what \<open>geokrig\<close> does (every access is
  positional, and \<open>reset_index(drop=True)\<close> only renumbers), so it is not modelled.
\<close>

record 'g geoframe =
  geometry :: "'g list"
  columns :: "(string \<times> cell list) list"

definition n_units :: "'g geoframe \<Rightarrow> nat" where
  "n_units df = length (geometry df)"

text \<open>Every column of a dataframe has one cell per row.\<close>

definition wf_frame :: "'g geoframe \<Rightarrow> bool" where
  "wf_frame df = list_all (\<lambda>(name, col). length col = n_units df) (columns df)"

text \<open>\<open>df[name]\<close>\<close>

definition getitem :: "'g geoframe \<Rightarrow> string \<Rightarrow> error + cell list" where
  "getitem df name =
     (case map_of (columns df) name of None \<Rightarrow> Inl (KeyError name) | Some col \<Rightarrow> Inr col)"

text \<open>\<open>~col.isnull()\<close>\<close>

definition notnull :: "cell list \<Rightarrow> bool list" where
  "notnull col = map (\<lambda>c. c \<noteq> None) col"

text \<open>Selection of the positions where a boolean mask is true.\<close>

definition boolean_index :: "bool list \<Rightarrow> 'a list \<Rightarrow> 'a list" where
  "boolean_index msk xs = map fst (filter snd (zip xs msk))"

text \<open>\<open>df[mask]\<close>: a new table, the argument is not changed.\<close>

definition select_rows :: "'g geoframe \<Rightarrow> bool list \<Rightarrow> 'g geoframe" where
  "select_rows df msk =
     \<lparr>geometry = boolean_index msk (geometry df),
      columns = map (\<lambda>(name, col). (name, boolean_index msk col)) (columns df)\<rparr>"

text \<open>
  \<open>df[name] = array\<close>: an array of the wrong length raises and leaves the table as it was;
  otherwise an existing column of that name gets the new values in place, and a new name
  is appended as the last column.
\<close>

definition setitem :: "'g geoframe \<Rightarrow> string \<Rightarrow> cell list \<Rightarrow> error + 'g geoframe" where
  "setitem df name vals =
     (if length vals \<noteq> n_units df then Inl ValueError
      else Inr (df\<lparr>columns := AList.update name vals (columns df)\<rparr>))"

subsection \<open>Arrays handed to the numerical library\<close>

text \<open>A drift array is one-dimensional (one covariate) or two-dimensional (stacked rows).\<close>

datatype ndarray = Arr1 "cell list" | Arr2 "cell list list"

text \<open>\<open>np.vstack((a, b))\<close> of two one-dimensional arrays.\<close>

definition vstack :: "cell list \<Rightarrow> cell list \<Rightarrow> error + ndarray" where
  "vstack a b = (if length a \<noteq> length b then Inl ValueError else Inr (Arr2 [a, b]))"

text \<open>
  A position tuple: two coordinate arrays of equal length. With \<open>latlon=True\<close> the library
  reads the first as latitudes and the second as longitudes, in degrees; the source names
  the components of every tuple it passes \<open>lat\<close> and \<open>lon\<close> accordingly.
\<close>

type_synonym positions = "real list \<times> real list"

subsection \<open>The numerical library\<close>

text \<open>
  The functions of the geometry and geostatistics libraries that \<open>geokrig\<close> calls, as pure
  functions of their arguments. \<open>'n\<close> is a fitted normalizer, \<open>'m\<close> a covariance model,
  \<open>'k\<close> a kriging system built from a model and its conditions, \<open>'r\<close> the state of the
  master seed generator. Keyword arguments that the source passes are arguments here, in
  the order noted at each field.
\<close>

record ('g, 'n, 'm, 'k, 'r) backend =
  centroid :: "'g \<Rightarrow> real \<times> real"
    \<comment> \<open>\<open>.centroid\<close>: the pair \<open>(x, y)\<close>\<close>
  LogNormal :: "cell list \<Rightarrow> error + 'n"
    \<comment> \<open>\<open>gs.normalizer.LogNormal(data)\<close>\<close>
  vario_estimate :: "positions \<Rightarrow> cell list \<Rightarrow> string \<Rightarrow> bool \<Rightarrow> string \<Rightarrow> 'n
                     \<Rightarrow> error + real list \<times> real list"
    \<comment> \<open>\<open>pos, field, estimator, latlon, mesh_type, normalizer\<close>; returns bin centres and variogram\<close>
  fit_variogram :: "'m \<Rightarrow> real list \<Rightarrow> real list \<Rightarrow> bool \<Rightarrow> string \<Rightarrow> error + 'm"
    \<comment> \<open>\<open>model.fit_variogram(x_data, y_data, nugget, loss)\<close>; the model after fitting\<close>
  nugget :: "'m \<Rightarrow> real"
    \<comment> \<open>\<open>model.nugget\<close>\<close>
  ExtDrift :: "'m \<Rightarrow> positions \<Rightarrow> cell list \<Rightarrow> ndarray \<Rightarrow> error + 'k"
    \<comment> \<open>\<open>gs.krige.ExtDrift(model, cond_pos, cond_val, ext_drift)\<close>\<close>
  krige :: "'k \<Rightarrow> positions \<Rightarrow> ndarray \<Rightarrow> bool \<Rightarrow> error + cell list"
    \<comment> \<open>the kriged field at \<open>pos\<close> with \<open>ext_drift\<close>; the flag is \<open>only_mean\<close>\<close>
  simulate :: "'k \<Rightarrow> positions \<Rightarrow> nat \<Rightarrow> ndarray \<Rightarrow> error + cell list"
    \<comment> \<open>one conditioned random field at \<open>pos\<close> for \<open>seed\<close> with \<open>ext_drift\<close>\<close>
  MasterRNG :: "nat \<Rightarrow> 'r"
    \<comment> \<open>\<open>gs.random.MasterRNG(seed)\<close>\<close>
  draw :: "'r \<Rightarrow> nat \<times> 'r"
    \<comment> \<open>calling the master generator: the next sub-seed and the generator afterwards\<close>

subsection \<open>Field objects: results stored by name\<close>

text \<open>
  A kriging object and a conditioned random field object each keep the position tuple of
  the last call that gave one and a dictionary of stored fields. Calling the object
  computes a field and stores it under the name given by \<open>store\<close>; \<open>obj[name]\<close> reads it
  back. The kriging variance, which \<open>geokrig\<close> never reads, is left out, and so is
  \<open>chunk_size\<close>, which only batches the target locations. The field object holds the
  kriging object it was built from; its calls store nothing under the name \<open>krig\<close>, so
  what line 140 reads from the kriging object is what line 117 stored.
\<close>

type_synonym field_store = "(string \<times> cell list) list"

record 'k krige_obj =
  system :: 'k
  kpos :: "positions option"
  kfields :: field_store

record 'k srf_obj =
  srf_krige :: "'k krige_obj"
  srf_pos :: "positions option"
  srf_fields :: field_store

definition obj_getitem :: "field_store \<Rightarrow> string \<Rightarrow> error + cell list" where
  "obj_getitem fs name =
     (case map_of fs name of None \<Rightarrow> Inl (KeyError name) | Some fld \<Rightarrow> Inr fld)"

text \<open>\<open>krig(pos, ext_drift=..., only_mean=..., store=name)\<close>; \<open>pos=None\<close> reuses the stored one.\<close>

definition krige_call ::
  "('g, 'n, 'm, 'k, 'r) backend \<Rightarrow> 'k krige_obj \<Rightarrow> positions option \<Rightarrow> ndarray \<Rightarrow> bool \<Rightarrow> string
   \<Rightarrow> error + 'k krige_obj" where
  "krige_call b krig pos ext_drift only_mean name =
     (case (case pos of Some p \<Rightarrow> Some p | None \<Rightarrow> kpos krig) of
        None \<Rightarrow> Inl ValueError
      | Some p \<Rightarrow>
          ebind (krige b (system krig) p ext_drift only_mean) (\<lambda>fld.
            Inr (krig\<lparr>kpos := Some p, kfields := AList.update name fld (kfields krig)\<rparr>)))"

text \<open>\<open>gs.CondSRF(krige=krig, latlon=True)\<close> and \<open>cond_srf.set_pos(pos, mesh_type="unstructured")\<close>\<close>

definition CondSRF :: "'k krige_obj \<Rightarrow> 'k srf_obj" where
  "CondSRF krig = \<lparr>srf_krige = krig, srf_pos = None, srf_fields = []\<rparr>"

definition set_pos :: "'k srf_obj \<Rightarrow> positions \<Rightarrow> 'k srf_obj" where
  "set_pos srf pos = srf\<lparr>srf_pos := Some pos\<rparr>"

text \<open>
  \<open>cond_srf(seed=s, store=[name, False, False], ext_drift=...)\<close>: the conditioned field is
  stored under \<open>name\<close>, the raw field and the kriged field are not stored.
\<close>

definition srf_call ::
  "('g, 'n, 'm, 'k, 'r) backend \<Rightarrow> 'k srf_obj \<Rightarrow> nat \<Rightarrow> string \<Rightarrow> ndarray \<Rightarrow> error + 'k srf_obj" where
  "srf_call b srf s name ext_drift =
     (case srf_pos srf of
        None \<Rightarrow> Inl ValueError
      | Some p \<Rightarrow>
          ebind (simulate b (system (srf_krige srf)) p s ext_drift) (\<lambda>fld.
            Inr (srf\<lparr>srf_fields := AList.update name fld (srf_fields srf)\<rparr>)))"

subsection \<open>The returned table (a plain DataFrame)\<close>

record dataframe =
  n_rows :: nat
  n_cols :: nat
  cells :: "cell list list"

text \<open>
  \<open>pd.DataFrame(fields)\<close> for a list of one-dimensional arrays: one row per array, as many
  columns as the longest array, shorter rows filled with NaN. An empty list gives the
  empty 0 by 0 table.
\<close>

definition pd_DataFrame :: "cell list list \<Rightarrow> dataframe" where
  "pd_DataFrame flds =
     (let w = fold max (map length flds) 0
      in \<lparr>n_rows = length flds, n_cols = w,
          cells = map (\<lambda>f. f @ replicate (w - length f) None) flds\<rparr>)"

text \<open>\<open>.T\<close>; the \<open>reset_index(drop=True)\<close> that follows renumbers the rows and changes no cell.\<close>

definition frame_T :: "dataframe \<Rightarrow> dataframe" where
  "frame_T m =
     \<lparr>n_rows = n_cols m, n_cols = n_rows m,
      cells = map (\<lambda>j. map (\<lambda>row. row ! j) (cells m)) [0..<n_cols m]\<rparr>"

subsection \<open>Lines 59 to 82: observed rows, centroids, drift arrays\<close>

record extracted =
  lat :: "real list"
  lon :: "real list"
  int_data :: "cell list"
  g_lat :: "real list"
  g_lon :: "real list"
  external_drift_data :: ndarray
  external_drift_at_abortion :: ndarray

text \<open>
  The source binds \<open>lat\<close> to the centroids' \<open>x\<close> and \<open>lon\<close> to their \<open>y\<close>, for the observed
  rows and (as \<open>g_lat\<close>, \<open>g_lon\<close>) for all rows.
\<close>

definition extract_data ::
  "('g \<Rightarrow> real \<times> real) \<Rightarrow> 'g geoframe \<Rightarrow> string \<Rightarrow> string \<Rightarrow> string option \<Rightarrow> error + extracted" where
  "extract_data cen df variable drift1 drift2 =
     ebind (getitem df variable) (\<lambda>target.
       (let intpoints = select_rows df (notnull target);
            la = map (\<lambda>g. fst (cen g)) (geometry intpoints);
            lo = map (\<lambda>g. snd (cen g)) (geometry intpoints)
        in ebind (getitem intpoints variable) (\<lambda>vals.
          (let gla = map (\<lambda>g. fst (cen g)) (geometry df);
               glo = map (\<lambda>g. snd (cen g)) (geometry df)
           in ebind (getitem df drift1) (\<lambda>external_drift_data1.
             (case drift2 of
                Some d2 \<Rightarrow>
                  ebind (getitem df d2) (\<lambda>external_drift_data2.
                  ebind (vstack external_drift_data1 external_drift_data2) (\<lambda>drift_all.
                  ebind (getitem intpoints drift1) (\<lambda>external_drift_at_abortion1.
                  ebind (getitem intpoints d2) (\<lambda>external_drift_at_abortion2.
                  ebind (vstack external_drift_at_abortion1 external_drift_at_abortion2) (\<lambda>drift_obs.
                    Inr \<lparr>lat = la, lon = lo, int_data = vals, g_lat = gla, g_lon = glo,
                         external_drift_data = drift_all,
                         external_drift_at_abortion = drift_obs\<rparr>)))))
              | None \<Rightarrow>
                  ebind (getitem intpoints drift1) (\<lambda>drift_obs.
                    Inr \<lparr>lat = la, lon = lo, int_data = vals, g_lat = gla, g_lon = glo,
                         external_drift_data = Arr1 external_drift_data1,
                         external_drift_at_abortion = Arr1 drift_obs\<rparr>)))))))"

subsection \<open>Lines 85 to 100: normalizer, empirical variogram, fitted model\<close>

text \<open>
  \<open>max(bin_center)\<close> in the diagnostic print raises on an empty sequence. The plot of lines
  103 to 106 has no result that the function uses.
\<close>

definition fit_model ::
  "('g, 'n, 'm, 'k, 'r) backend \<Rightarrow> (nat \<Rightarrow> bool \<Rightarrow> error + 'm) \<Rightarrow> extracted \<Rightarrow> error + 'm" where
  "fit_model b model x =
     ebind (LogNormal b (int_data x)) (\<lambda>normalizer.
     ebind (vario_estimate b (lat x, lon x) (int_data x) ''cressie'' True ''unstructured'' normalizer)
       (\<lambda>(bin_center, vario).
          if bin_center = [] then Inl ValueError
          else ebind (model 2 True) (\<lambda>m. fit_variogram b m bin_center vario False ''cauchy'')))"

subsection \<open>Lines 109 to 118: external drift kriging\<close>

definition krige_stage ::
  "('g, 'n, 'm, 'k, 'r) backend \<Rightarrow> 'm \<Rightarrow> extracted \<Rightarrow> error + 'k krige_obj" where
  "krige_stage b m x =
     ebind (ExtDrift b m (lat x, lon x) (int_data x) (external_drift_at_abortion x)) (\<lambda>k.
     ebind (krige_call b \<lparr>system = k, kpos = None, kfields = []\<rparr>
              (Some (g_lat x, g_lon x)) (external_drift_data x) False ''field'') (\<lambda>krig1.
     ebind (krige_call b krig1 None (external_drift_data x) False ''krig'') (\<lambda>krig2.
     krige_call b krig2 None (external_drift_data x) True ''mean_field'')))"

subsection \<open>Lines 121 to 137: conditional simulation\<close>

text \<open>
  The loop over \<open>range(iterations)\<close>, threading the master generator, the field object and
  the dictionary \<open>fields\<close>: each pass draws a sub-seed, simulates and stores the field as
  \<open>f{i}\<close>, and copies it into the dictionary under \<open>field_{i}\<close>.
\<close>

fun simulate_loop ::
  "('g, 'n, 'm, 'k, 'r) backend \<Rightarrow> ndarray \<Rightarrow> nat list \<Rightarrow> 'r \<times> 'k srf_obj \<times> field_store
   \<Rightarrow> error + 'r \<times> 'k srf_obj \<times> field_store" where
  "simulate_loop b ext_drift [] st = Inr st"
| "simulate_loop b ext_drift (i # is) (seed, cond_srf, dict) =
     (case draw b seed of (s, seed') \<Rightarrow>
        ebind (srf_call b cond_srf s (field_name i) ext_drift) (\<lambda>cond_srf'.
        ebind (obj_getitem (srf_fields cond_srf') (field_name i)) (\<lambda>fld.
          simulate_loop b ext_drift is (seed', cond_srf', AList.update (dict_key i) fld dict))))"

text \<open>
  \<open>range(iterations)\<close> is empty for zero and for negative counts. Line 137 rebinds
  \<open>fields\<close> to the list of the stored fields, read back by name.
\<close>

definition simulate_stage ::
  "('g, 'n, 'm, 'k, 'r) backend \<Rightarrow> 'k krige_obj \<Rightarrow> extracted \<Rightarrow> int \<Rightarrow> error + cell list list" where
  "simulate_stage b krig x iterations =
     (let cond_srf = set_pos (CondSRF krig) (g_lat x, g_lon x);
          seed = MasterRNG b 20170519
      in ebind (simulate_loop b (external_drift_data x) [0..<nat iterations] (seed, cond_srf, []))
           (\<lambda>(seed', cond_srf', dict).
              emap (\<lambda>i. obj_getitem (srf_fields cond_srf') (field_name i)) [0..<nat iterations]))"

subsection \<open>The entry point\<close>

text \<open>Everything up to line 137: the kriging object and the list of simulated fields.\<close>

definition compute ::
  "('g, 'n, 'm, 'k, 'r) backend \<Rightarrow> 'g geoframe \<Rightarrow> string \<Rightarrow> int \<Rightarrow> (nat \<Rightarrow> bool \<Rightarrow> error + 'm)
   \<Rightarrow> string \<Rightarrow> string option \<Rightarrow> error + 'k krige_obj \<times> cell list list" where
  "compute b df variable iterations model drift1 drift2 =
     ebind (extract_data (centroid b) df variable drift1 drift2) (\<lambda>x.
     ebind (fit_model b model x) (\<lambda>m.
     ebind (krige_stage b m x) (\<lambda>krig.
     ebind (simulate_stage b krig x iterations) (\<lambda>flds. Inr (krig, flds)))))"

text \<open>
  \<open>geokrig\<close> returns the caller's table as the call leaves it, and either the exception
  raised or the returned table. Lines 140 to 144: the stored field \<open>krig\<close> becomes the
  column \<open>cond_krig\<close>, and the simulated fields become a table that is transposed.
\<close>

definition geokrig ::
  "('g, 'n, 'm, 'k, 'r) backend \<Rightarrow> 'g geoframe \<Rightarrow> string \<Rightarrow> int \<Rightarrow> (nat \<Rightarrow> bool \<Rightarrow> error + 'm)
   \<Rightarrow> string \<Rightarrow> string option \<Rightarrow> 'g geoframe \<times> (error + dataframe)" where
  "geokrig b df variable iterations model drift1 drift2 =
     (case compute b df variable iterations model drift1 drift2 of
        Inl e \<Rightarrow> (df, Inl e)
      | Inr (krig, flds) \<Rightarrow>
          (case ebind (obj_getitem (kfields krig) ''krig'') (setitem df ''cond_krig'') of
             Inl e \<Rightarrow> (df, Inl e)
           | Inr df' \<Rightarrow> (df', Inr (frame_T (pd_DataFrame flds)))))"

subsection \<open>What the specification says of the simulation and of the library\<close>

text \<open>
  Section 4.6 in the specification's words: a sub-seed sequence is derived from the master
  seed, one sub-seed per realization, and the output is the ordered sequence of the
  fields simulated for these sub-seeds. \<open>sub_seeds\<close> is that sequence, \<open>spec_simulate\<close>
  that output; neither stores anything by name.
\<close>

fun sub_seeds :: "('g, 'n, 'm, 'k, 'r) backend \<Rightarrow> 'r \<Rightarrow> nat \<Rightarrow> nat list" where
  "sub_seeds b rng 0 = []"
| "sub_seeds b rng (Suc n) = (case draw b rng of (s, rng') \<Rightarrow> s # sub_seeds b rng' n)"

definition spec_simulate ::
  "('g, 'n, 'm, 'k, 'r) backend \<Rightarrow> 'k \<Rightarrow> positions \<Rightarrow> ndarray \<Rightarrow> 'r \<Rightarrow> nat \<Rightarrow> error + cell list list" where
  "spec_simulate b k pos ext_drift rng n =
     emap (\<lambda>s. simulate b k pos s ext_drift) (sub_seeds b rng n)"

text \<open>The rows of the table whose target value is present, in table order.\<close>

definition observed_rows :: "cell list \<Rightarrow> nat list" where
  "observed_rows target = filter (\<lambda>i. target ! i \<noteq> None) [0..<length target]"

text \<open>
  Modelled from the spec: the library's simulation and kriging return one value per target
  location (sections 3 and 4.6, ``a value per SpatialUnit'').
\<close>

definition one_value_per_location :: "('g, 'n, 'm, 'k, 'r) backend \<Rightarrow> bool" where
  "one_value_per_location b =
     (\<forall>k la lo s d only_mean fld. length la = length lo \<longrightarrow>
        (simulate b k (la, lo) s d = Inr fld \<longrightarrow> length fld = length la) \<and>
        (krige b k (la, lo) d only_mean = Inr fld \<longrightarrow> length fld = length la))"

text \<open>
  Modelled from the spec: the conditional simulator is absent from the source; section 4.6
  requires that a field ``must reproduce observed values exactly at observation locations
  (strict conditioning)''. A field simulated from a kriging system equals the condition
  value wherever a target location is a condition location.
\<close>

definition strict_conditioning :: "('g, 'n, 'm, 'k, 'r) backend \<Rightarrow> bool" where
  "strict_conditioning b =
     (\<forall>m cla clo cval cdrift k la lo s d fld.
        ExtDrift b m (cla, clo) cval cdrift = Inr k \<longrightarrow>
        simulate b k (la, lo) s d = Inr fld \<longrightarrow>
        length cla = length clo \<longrightarrow> length cval = length cla \<longrightarrow>
        length la = length lo \<longrightarrow> length fld = length la \<longrightarrow>
        (\<forall>j<length cla. \<forall>i<length la.
           la ! i = cla ! j \<longrightarrow> lo ! i = clo ! j \<longrightarrow> fld ! i = cval ! j))"

text \<open>
  Modelled from the spec: the normalizer is absent from the source; section 4.2 says it
  ``fails with NumericError if any observed value is non-positive'', and names no other
  failure.
\<close>

definition lognormal_domain :: "('g, 'n, 'm, 'k, 'r) backend \<Rightarrow> bool" where
  "lognormal_domain b =
     (\<forall>xs. (case LogNormal b xs of
              Inl e \<Rightarrow> e = NumericError \<and> (\<exists>v. Some v \<in> set xs \<and> v \<le> 0)
            | Inr n \<Rightarrow> \<not> (\<exists>v. Some v \<in> set xs \<and> v \<le> 0)))"

text \<open>
  Modelled from the spec: the covariance model and its fitting are absent from the source;
  sections 3 and 4.4 say the nugget is ``fixed to zero'', ``constrained to exactly zero'',
  not estimated. A model as its family constructs it has nugget zero, and a fit whose
  nugget flag is off returns a model with the nugget it was given.
\<close>

definition nugget_not_estimated ::
  "('g, 'n, 'm, 'k, 'r) backend \<Rightarrow> (nat \<Rightarrow> bool \<Rightarrow> error + 'm) \<Rightarrow> bool" where
  "nugget_not_estimated b model =
     ((\<forall>dim latlon m. model dim latlon = Inr m \<longrightarrow> nugget b m = 0) \<and>
      (\<forall>m xs ys loss m'. fit_variogram b m xs ys False loss = Inr m' \<longrightarrow> nugget b m' = nugget b m))"

text \<open>No call into the numerical library after the normalizer raises the error \<open>e\<close>.\<close>

definition numerics_never_raise ::
  "('g, 'n, 'm, 'k, 'r) backend \<Rightarrow> (nat \<Rightarrow> bool \<Rightarrow> error + 'm) \<Rightarrow> error \<Rightarrow> bool" where
  "numerics_never_raise b model e =
     ((\<forall>pos vals est ll mesh n. vario_estimate b pos vals est ll mesh n \<noteq> Inl e) \<and>
      (\<forall>dim ll. model dim ll \<noteq> Inl e) \<and>
      (\<forall>m xs ys nug loss. fit_variogram b m xs ys nug loss \<noteq> Inl e) \<and>
      (\<forall>m pos vals d. ExtDrift b m pos vals d \<noteq> Inl e) \<and>
      (\<forall>k pos d only_mean. krige b k pos d only_mean \<noteq> Inl e) \<and>
      (\<forall>k pos s d. simulate b k pos s d \<noteq> Inl e))"

subsection \<open>A small numerical library and small tables, for evaluating the pipeline\<close>

text \<open>
  A stand-in for the numerical library that can be run. A geometry is its own centroid.
  The normalizer rejects non-positive data (specification, section 4.2); the kriging system
  is the list of conditions and is refused for duplicate condition locations (section 4.5);
  kriging and simulation return the condition value at a condition location, and elsewhere
  zero (kriging) or the seed (simulation). The master generator counts upwards.
\<close>

type_synonym demo_system = "((real \<times> real) \<times> cell) list"

definition demo_model :: "nat \<Rightarrow> bool \<Rightarrow> error + real" where
  "demo_model d latlon = Inr 0"

definition demo_LogNormal :: "cell list \<Rightarrow> error + unit" where
  "demo_LogNormal xs =
     (if list_ex (\<lambda>c. case c of None \<Rightarrow> False | Some v \<Rightarrow> v \<le> 0) xs then Inl NumericError
      else Inr ())"

definition demo_ExtDrift :: "real \<Rightarrow> positions \<Rightarrow> cell list \<Rightarrow> ndarray \<Rightarrow> error + demo_system" where
  "demo_ExtDrift m pos vals d =
     (case pos of (la, lo) \<Rightarrow>
        if distinct (zip la lo) then Inr (zip (zip la lo) vals) else Inl SingularSystemError)"

definition demo_field :: "demo_system \<Rightarrow> positions \<Rightarrow> cell \<Rightarrow> cell list" where
  "demo_field k pos other =
     (case pos of (la, lo) \<Rightarrow>
        map (\<lambda>p. case map_of k p of Some v \<Rightarrow> v | None \<Rightarrow> other) (zip la lo))"

definition demo :: "(real \<times> real, unit, real, demo_system, nat) backend" where
  "demo =
     \<lparr>centroid = (\<lambda>g. g),
      LogNormal = demo_LogNormal,
      vario_estimate = (\<lambda>pos vals est ll mesh n. Inr ([1], [1])),
      fit_variogram = (\<lambda>m xs ys nug loss. Inr (if nug then 1 else m)),
      nugget = (\<lambda>m. m),
      ExtDrift = demo_ExtDrift,
      krige = (\<lambda>k pos d only_mean. Inr (demo_field (if only_mean then [] else k) pos (Some 0))),
      simulate = (\<lambda>k pos s d. Inr (demo_field k pos (Some (real s)))),
      MasterRNG = (\<lambda>s. s),
      draw = (\<lambda>r. (r, Suc r))\<rparr>"

text \<open>
  Three units with centroids \<open>(x, y)\<close>; the target \<open>y\<close> is observed at the first and the
  third; two drift covariates are known everywhere.
\<close>

definition units3 :: "(real \<times> real) geoframe" where
  "units3 =
     \<lparr>geometry = [(-100, 40), (-101, 41), (-102, 42)],
      columns = [(''y'', [Some 5, None, Some 7]),
                 (''d1'', [Some 1, Some 2, Some 3]),
                 (''d2'', [Some 4, Some 5, Some 6])]\<rparr>"

text \<open>The same table with a non-positive observed value.\<close>

definition units3_nonpositive :: "(real \<times> real) geoframe" where
  "units3_nonpositive =
     \<lparr>geometry = [(-100, 40), (-101, 41), (-102, 42)],
      columns = [(''y'', [Some 5, None, Some 0]),
                 (''d1'', [Some 1, Some 2, Some 3]),
                 (''d2'', [Some 4, Some 5, Some 6])]\<rparr>"

text \<open>The same table when it already has a column \<open>cond_krig\<close>, as after an earlier call.\<close>

definition units3_again :: "(real \<times> real) geoframe" where
  "units3_again =
     \<lparr>geometry = [(-100, 40), (-101, 41), (-102, 42)],
      columns = [(''y'', [Some 5, None, Some 7]),
                 (''cond_krig'', [Some 9, Some 9, Some 9]),
                 (''d1'', [Some 1, Some 2, Some 3]),
                 (''d2'', [Some 4, Some 5, Some 6])]\<rparr>"

section \<open>Properties\<close>

subsection \<open>Sequencing and field names\<close>

lemma ebind_Inr_iff: "ebind m f = Inr y \<longleftrightarrow> (\<exists>x. m = Inr x \<and> f x = Inr y)"
  by (cases m) (simp_all add: ebind_def)

lemma ebind_Inl_iff: "ebind m f = Inl e \<longleftrightarrow> m = Inl e \<or> (\<exists>x. m = Inr x \<and> f x = Inl e)"
  by (cases m) (simp_all add: ebind_def)

lemma ebind_simps [simp]: "ebind (Inl e) f = Inl e" "ebind (Inr x) f = f x"
  by (simp_all add: ebind_def)

lemma emap_Inr_length: "emap f xs = Inr ys \<Longrightarrow> length ys = length xs"
  by (induction xs arbitrary: ys) (auto simp: ebind_Inr_iff)

lemma emap_Inr_nth: "emap f xs = Inr ys \<Longrightarrow> i < length xs \<Longrightarrow> f (xs ! i) = Inr (ys ! i)"
proof (induction xs arbitrary: ys i)
  case Nil
  then show ?case by simp
next
  case (Cons x xs)
  then show ?case by (cases i) (auto simp: ebind_Inr_iff)
qed

lemma emap_all_Inr: "(\<And>x. x \<in> set xs \<Longrightarrow> f x = Inr (g x)) \<Longrightarrow> emap f xs = Inr (map g xs)"
  by (induction xs) simp_all

lemma digit_char_inj: "a < 10 \<Longrightarrow> b < 10 \<Longrightarrow> digit_char a = digit_char b \<Longrightarrow> a = b"
proof -
  assume a: "a < 10" and b: "b < 10" and eq: "digit_char a = digit_char b"
  have d: "distinct ''0123456789''" by simp
  have "a < length ''0123456789''" "b < length ''0123456789''" using a b by simp_all
  with d eq show "a = b" unfolding digit_char_def by (simp only: nth_eq_iff_index_eq)
qed

lemma str_nat_nonempty: "str_nat n \<noteq> []"
  by (subst str_nat.simps) simp

lemma str_nat_inj: "str_nat m = str_nat n \<Longrightarrow> m = n"
proof (induction m arbitrary: n rule: str_nat.induct)
  case (1 m)
  show ?case
  proof (cases "m < 10")
    case True
    then have sm: "str_nat m = [digit_char m]" by (subst str_nat.simps) simp
    show ?thesis
    proof (cases "n < 10")
      case True
      then have "str_nat n = [digit_char n]" by (subst str_nat.simps) simp
      with sm "1.prems" have "digit_char m = digit_char n" by simp
      with \<open>m < 10\<close> \<open>n < 10\<close> show ?thesis by (rule digit_char_inj)
    next
      case False
      then have "str_nat n = str_nat (n div 10) @ [digit_char (n mod 10)]"
        by (subst str_nat.simps) simp
      with sm "1.prems" have "str_nat (n div 10) = []" by simp
      then show ?thesis by (simp add: str_nat_nonempty)
    qed
  next
    case False
    then have sm: "str_nat m = str_nat (m div 10) @ [digit_char (m mod 10)]"
      by (subst str_nat.simps) simp
    show ?thesis
    proof (cases "n < 10")
      case True
      then have "str_nat n = [digit_char n]" by (subst str_nat.simps) simp
      with sm "1.prems" have "str_nat (m div 10) = []" by simp
      then show ?thesis by (simp add: str_nat_nonempty)
    next
      case n: False
      then have "str_nat n = str_nat (n div 10) @ [digit_char (n mod 10)]"
        by (subst str_nat.simps) simp
      with sm "1.prems" have p: "str_nat (m div 10) = str_nat (n div 10)"
        and q: "digit_char (m mod 10) = digit_char (n mod 10)" by simp_all
      from "1.IH" [OF False p] have dv: "m div 10 = n div 10" .
      have "m mod 10 = n mod 10" by (rule digit_char_inj [OF _ _ q]) simp_all
      with dv show ?thesis by (metis div_mult_mod_eq)
    qed
  qed
qed

lemma field_name_inj: "field_name i = field_name j \<longleftrightarrow> i = j"
  by (auto simp: field_name_def dest: str_nat_inj)

lemma distinct_field_names: "distinct xs \<Longrightarrow> distinct (map field_name xs)"
  by (simp add: distinct_map inj_on_def field_name_inj)

lemma updates_nth:
  "distinct ks \<Longrightarrow> length ks = length vs \<Longrightarrow> i < length ks
   \<Longrightarrow> map_of (AList.updates ks vs al) (ks ! i) = Some (vs ! i)"
proof (induction ks arbitrary: vs al i)
  case Nil
  then show ?case by simp
next
  case (Cons k ks)
  then obtain v vs' where vs: "vs = v # vs'" by (cases vs) auto
  show ?case
  proof (cases i)
    case 0
    with Cons.prems vs show ?thesis by (simp add: AList.update_conv')
  next
    case (Suc j)
    with Cons.prems vs Cons.IH [of vs' j "AList.update k v al"] show ?thesis by simp
  qed
qed

subsection \<open>The simulation loop against the sub-seed sequence\<close>

lemma length_sub_seeds: "length (sub_seeds b rng n) = n"
  by (induction n arbitrary: rng) (auto split: prod.splits)

lemma simulate_loop_Inr:
  assumes "srf_pos srf = Some p"
    and "simulate_loop b d is (rng, srf, dict) = Inr (rng', srf', dict')"
  shows "\<exists>flds. emap (\<lambda>s. simulate b (system (srf_krige srf)) p s d) (sub_seeds b rng (length is)) = Inr flds
           \<and> srf_fields srf' = AList.updates (map field_name is) flds (srf_fields srf)
           \<and> srf_pos srf' = Some p \<and> srf_krige srf' = srf_krige srf"
  using assms
proof (induction "is" arbitrary: rng srf dict)
  case Nil
  then show ?case by simp
next
  case (Cons i "is")
  obtain s rng1 where dr: "draw b rng = (s, rng1)" by (cases "draw b rng")
  from Cons.prems dr obtain fld where
    sim: "simulate b (system (srf_krige srf)) p s d = Inr fld"
    and rest: "simulate_loop b d is
                 (rng1, srf\<lparr>srf_fields := AList.update (field_name i) fld (srf_fields srf)\<rparr>,
                  AList.update (dict_key i) fld dict) = Inr (rng', srf', dict')"
    by (auto simp: srf_call_def ebind_Inr_iff obj_getitem_def AList.update_conv' split: option.splits)
  let ?srf1 = "srf\<lparr>srf_fields := AList.update (field_name i) fld (srf_fields srf)\<rparr>"
  have "srf_pos ?srf1 = Some p" using Cons.prems by simp
  from Cons.IH [OF this rest] obtain flds where
    "emap (\<lambda>s. simulate b (system (srf_krige srf)) p s d) (sub_seeds b rng1 (length is)) = Inr flds"
    "srf_fields srf' = AList.updates (map field_name is) flds (srf_fields ?srf1)"
    "srf_pos srf' = Some p" "srf_krige srf' = srf_krige srf"
    by auto
  with sim dr show ?case by simp
qed

lemma simulate_loop_Inl:
  assumes "srf_pos srf = Some p"
    and "simulate_loop b d is (rng, srf, dict) = Inl e"
  shows "emap (\<lambda>s. simulate b (system (srf_krige srf)) p s d) (sub_seeds b rng (length is)) = Inl e"
  using assms
proof (induction "is" arbitrary: rng srf dict)
  case Nil
  then show ?case by simp
next
  case (Cons i "is")
  obtain s rng1 where dr: "draw b rng = (s, rng1)" by (cases "draw b rng")
  show ?case
  proof (cases "simulate b (system (srf_krige srf)) p s d")
    case (Inl e')
    with Cons.prems dr show ?thesis by (simp add: srf_call_def)
  next
    case (Inr fld)
    let ?srf1 = "srf\<lparr>srf_fields := AList.update (field_name i) fld (srf_fields srf)\<rparr>"
    from Cons.prems dr Inr have rest: "simulate_loop b d is
                 (rng1, ?srf1, AList.update (dict_key i) fld dict) = Inl e"
      by (simp add: srf_call_def obj_getitem_def AList.update_conv')
    have "srf_pos ?srf1 = Some p" using Cons.prems by simp
    from Cons.IH [OF this rest] Inr dr show ?thesis by simp
  qed
qed

lemma read_back:
  assumes "length flds = n"
  shows "emap (\<lambda>i. obj_getitem (AList.updates (map field_name [0..<n]) flds al) (field_name i)) [0..<n]
         = Inr flds"
proof -
  have d: "distinct (map field_name [0..<n])" by (rule distinct_field_names) simp
  have "\<And>i. i \<in> set [0..<n] \<Longrightarrow>
          obj_getitem (AList.updates (map field_name [0..<n]) flds al) (field_name i) = Inr (flds ! i)"
  proof -
    fix i assume "i \<in> set [0..<n]"
    then have i: "i < n" by simp
    from updates_nth [OF d, of flds i al] assms i
    show "obj_getitem (AList.updates (map field_name [0..<n]) flds al) (field_name i) = Inr (flds ! i)"
      by (simp add: obj_getitem_def)
  qed
  then have "emap (\<lambda>i. obj_getitem (AList.updates (map field_name [0..<n]) flds al) (field_name i)) [0..<n]
             = Inr (map (\<lambda>i. flds ! i) [0..<n])"
    by (rule emap_all_Inr)
  moreover have "map (\<lambda>i. flds ! i) [0..<n] = flds"
    using map_nth [of flds] assms by simp
  ultimately show ?thesis by simp
qed

lemma simulate_stage_refines:
  "simulate_stage b krig x iterations =
   spec_simulate b (system krig) (g_lat x, g_lon x) (external_drift_data x)
     (MasterRNG b 20170519) (nat iterations)"
proof -
  let ?srf = "set_pos (CondSRF krig) (g_lat x, g_lon x)"
  let ?n = "nat iterations"
  let ?rng = "MasterRNG b 20170519"
  have pos: "srf_pos ?srf = Some (g_lat x, g_lon x)" by (simp add: set_pos_def CondSRF_def)
  have k: "system (srf_krige ?srf) = system krig" by (simp add: set_pos_def CondSRF_def)
  show ?thesis
  proof (cases "simulate_loop b (external_drift_data x) [0..<?n] (?rng, ?srf, [])")
    case (Inl e)
    from simulate_loop_Inl [OF pos Inl] k Inl show ?thesis
      by (simp add: simulate_stage_def spec_simulate_def)
  next
    case (Inr st)
    obtain rng' srf' dict' where st: "st = (rng', srf', dict')" by (cases st)
    from simulate_loop_Inr [OF pos Inr [unfolded st]] k obtain flds where
      e: "emap (\<lambda>s. simulate b (system krig) (g_lat x, g_lon x) s (external_drift_data x))
            (sub_seeds b ?rng ?n) = Inr flds"
      and f: "srf_fields srf' = AList.updates (map field_name [0..<?n]) flds (srf_fields ?srf)"
      by auto
    from emap_Inr_length [OF e] have "length flds = length (sub_seeds b ?rng ?n)" .
    then have len: "length flds = ?n" by (simp add: length_sub_seeds)
    from read_back [OF len] f e Inr st show ?thesis
      by (simp add: simulate_stage_def spec_simulate_def)
  qed
qed

subsection \<open>The returned table and the stages of a successful call\<close>

lemma fold_max_const:
  "(\<And>f. f \<in> set flds \<Longrightarrow> length f = N) \<Longrightarrow>
   fold max (map length flds) a = (if flds = [] then a else max a N)"
  by (induction flds arbitrary: a) (auto simp: max.assoc)

lemma frame_T_rect:
  assumes "\<And>f. f \<in> set flds \<Longrightarrow> length f = N" and "flds \<noteq> []"
  shows "frame_T (pd_DataFrame flds) =
         \<lparr>n_rows = N, n_cols = length flds,
          cells = map (\<lambda>j. map (\<lambda>row. row ! j) flds) [0..<N]\<rparr>"
proof -
  have w: "fold max (map length flds) 0 = N"
    using fold_max_const [of flds N 0] assms by simp
  have "map (\<lambda>f. f @ replicate (N - length f) None) flds = flds"
    using assms(1) by (simp add: map_idI)
  with w show ?thesis by (simp add: frame_T_def pd_DataFrame_def Let_def)
qed

lemma frame_T_empty: "frame_T (pd_DataFrame []) = \<lparr>n_rows = 0, n_cols = 0, cells = []\<rparr>"
  by (simp add: frame_T_def pd_DataFrame_def)

lemma compute_Inr_iff:
  "compute b df variable iterations model drift1 drift2 = Inr (krig, flds) \<longleftrightarrow>
   (\<exists>x m. extract_data (centroid b) df variable drift1 drift2 = Inr x \<and>
          fit_model b model x = Inr m \<and> krige_stage b m x = Inr krig \<and>
          simulate_stage b krig x iterations = Inr flds)"
  by (auto simp: compute_def ebind_Inr_iff)

lemma geokrig_Inr_iff:
  "geokrig b df variable iterations model drift1 drift2 = (df', Inr M) \<longleftrightarrow>
   (\<exists>krig flds kr. compute b df variable iterations model drift1 drift2 = Inr (krig, flds) \<and>
      obj_getitem (kfields krig) ''krig'' = Inr kr \<and> setitem df ''cond_krig'' kr = Inr df' \<and>
      M = frame_T (pd_DataFrame flds))"
  by (auto simp: geokrig_def ebind_Inr_iff split: sum.splits prod.splits)

lemma extract_g_lat:
  "extract_data cen df variable drift1 drift2 = Inr x \<Longrightarrow>
   g_lat x = map (\<lambda>g. fst (cen g)) (geometry df) \<and> g_lon x = map (\<lambda>g. snd (cen g)) (geometry df)"
  by (auto simp: extract_data_def ebind_Inr_iff Let_def split: option.splits)

lemma spec_simulate_nth:
  "spec_simulate b k pos d rng n = Inr flds \<Longrightarrow>
   length flds = n \<and> (\<forall>r<n. simulate b k pos (sub_seeds b rng n ! r) d = Inr (flds ! r))"
  using emap_Inr_length [of "\<lambda>s. simulate b k pos s d" "sub_seeds b rng n" flds]
    emap_Inr_nth [of "\<lambda>s. simulate b k pos s d" "sub_seeds b rng n" flds]
  by (simp add: spec_simulate_def length_sub_seeds)

subsection \<open>Row selection and the extracted arrays\<close>

lemma zip_as_map_nth:
  "length xs = length ys \<Longrightarrow> zip xs ys = map (\<lambda>i. (xs ! i, ys ! i)) [0..<length xs]"
  by (rule nth_equalityI) simp_all

lemma boolean_index_nth:
  assumes "length xs = length msk"
  shows "boolean_index msk xs = map (\<lambda>i. xs ! i) (filter (\<lambda>i. msk ! i) [0..<length xs])"
proof -
  have "filter snd (zip xs msk) = map (\<lambda>i. (xs ! i, msk ! i)) (filter (\<lambda>i. msk ! i) [0..<length xs])"
    by (simp add: zip_as_map_nth [OF assms] filter_map o_def)
  then show ?thesis by (simp add: boolean_index_def o_def)
qed

lemma notnull_rows:
  "filter (\<lambda>i. notnull target ! i) [0..<length target] = observed_rows target"
  unfolding observed_rows_def notnull_def by (rule filter_cong) simp_all

lemma boolean_index_observed:
  "length xs = length target \<Longrightarrow>
   boolean_index (notnull target) xs = map (\<lambda>i. xs ! i) (observed_rows target)"
  using boolean_index_nth [of xs "notnull target"] notnull_rows [of target]
  by (simp add: notnull_def)

lemma observed_rows_bound: "i \<in> set (observed_rows target) \<Longrightarrow> i < length target"
  by (simp add: observed_rows_def)

lemma getitem_length: "wf_frame df \<Longrightarrow> getitem df name = Inr col \<Longrightarrow> length col = n_units df"
proof -
  assume wf: "wf_frame df" and g: "getitem df name = Inr col"
  from g have "map_of (columns df) name = Some col"
    by (simp add: getitem_def split: option.splits)
  then have "(name, col) \<in> set (columns df)" by (rule map_of_SomeD)
  with wf show ?thesis by (auto simp: wf_frame_def list_all_iff)
qed

lemma getitem_select_rows:
  "getitem (select_rows df msk) name =
   (case getitem df name of Inl e \<Rightarrow> Inl e | Inr col \<Rightarrow> Inr (boolean_index msk col))"
  by (simp add: getitem_def select_rows_def map_of_map split: option.splits)

lemma getitem_select_rows_Inr_iff:
  "getitem (select_rows df msk) name = Inr c' \<longleftrightarrow>
   (\<exists>c. getitem df name = Inr c \<and> c' = boolean_index msk c)"
  by (cases "getitem df name") (auto simp: getitem_select_rows)

lemma extract_data_Inr:
  assumes "extract_data cen df variable drift1 drift2 = Inr x"
  shows "\<exists>target c1.
      getitem df variable = Inr target \<and> getitem df drift1 = Inr c1 \<and>
      lat x = map (\<lambda>g. fst (cen g)) (boolean_index (notnull target) (geometry df)) \<and>
      lon x = map (\<lambda>g. snd (cen g)) (boolean_index (notnull target) (geometry df)) \<and>
      int_data x = boolean_index (notnull target) target \<and>
      g_lat x = map (\<lambda>g. fst (cen g)) (geometry df) \<and>
      g_lon x = map (\<lambda>g. snd (cen g)) (geometry df) \<and>
      (case drift2 of
         None \<Rightarrow> external_drift_data x = Arr1 c1 \<and>
                 external_drift_at_abortion x = Arr1 (boolean_index (notnull target) c1)
       | Some d2 \<Rightarrow> (\<exists>c2. getitem df d2 = Inr c2 \<and> length c1 = length c2 \<and>
                 external_drift_data x = Arr2 [c1, c2] \<and>
                 external_drift_at_abortion x =
                   Arr2 [boolean_index (notnull target) c1, boolean_index (notnull target) c2]))"
proof -
  from assms obtain target where t: "getitem df variable = Inr target"
    by (auto simp: extract_data_def ebind_Inr_iff)
  have geo: "geometry (select_rows df (notnull target)) = boolean_index (notnull target) (geometry df)"
    by (simp add: select_rows_def)
  from assms t obtain c1 where c1: "getitem df drift1 = Inr c1"
    by (auto simp: extract_data_def ebind_Inr_iff Let_def)
  show ?thesis
  proof (cases drift2)
    case None
    with assms t c1 geo show ?thesis
      by (auto simp: extract_data_def ebind_Inr_iff Let_def getitem_select_rows_Inr_iff)
  next
    case (Some d2)
    with assms t c1 geo show ?thesis
      by (auto simp: extract_data_def ebind_Inr_iff Let_def getitem_select_rows_Inr_iff vstack_def
               split: if_splits)
  qed
qed

lemma length_boolean_index:
  "length (boolean_index msk xs) = length (filter (\<lambda>b. b) (take (length xs) msk))"
proof -
  have "length (boolean_index msk xs) = length (filter (\<lambda>b. b) (map snd (zip xs msk)))"
    by (simp add: boolean_index_def filter_map o_def)
  then show ?thesis by (simp add: map_snd_zip_take min_def take_all)
qed

lemma length_boolean_index_eq:
  "length xs = length ys \<Longrightarrow> length (boolean_index msk xs) = length (boolean_index msk ys)"
  by (simp add: length_boolean_index)

lemma extract_data_succeeds:
  assumes "wf_frame df"
    and "getitem df variable = Inr target" and "getitem df drift1 = Inr c1"
    and "\<forall>d2. drift2 = Some d2 \<longrightarrow> (\<exists>c2. getitem df d2 = Inr c2)"
  shows "\<exists>x. extract_data cen df variable drift1 drift2 = Inr x"
proof (cases drift2)
  case None
  with assms show ?thesis
    by (simp add: extract_data_def Let_def getitem_select_rows)
next
  case (Some d2)
  with assms(4) obtain c2 where c2: "getitem df d2 = Inr c2" by auto
  from assms(1,3) c2 have l: "length c1 = length c2" by (simp add: getitem_length)
  then have "length (boolean_index (notnull target) c1) = length (boolean_index (notnull target) c2)"
    by (rule length_boolean_index_eq)
  with Some assms c2 l show ?thesis
    by (simp add: extract_data_def Let_def getitem_select_rows vstack_def)
qed

subsection \<open>Where an exception can come from\<close>

lemma emap_Inl: "emap f xs = Inl e \<Longrightarrow> \<exists>x\<in>set xs. f x = Inl e"
  by (induction xs) (auto simp: ebind_Inl_iff)

lemma getitem_Inl: "getitem df name = Inl e \<Longrightarrow> e = KeyError name"
  by (auto simp: getitem_def split: option.splits)

lemma obj_getitem_Inl: "obj_getitem fs name = Inl e \<Longrightarrow> e = KeyError name"
  by (auto simp: obj_getitem_def split: option.splits)

lemma vstack_Inl: "vstack a c = Inl e \<Longrightarrow> e = ValueError"
  by (auto simp: vstack_def split: if_splits)

lemma setitem_Inl: "setitem df name vals = Inl e \<Longrightarrow> e = ValueError"
  by (auto simp: setitem_def split: if_splits)

lemma extract_data_Inl:
  assumes "extract_data cen df variable drift1 drift2 = Inl e"
  shows "(\<exists>k. e = KeyError k) \<or> e = ValueError"
proof (cases drift2)
  case None
  with assms show ?thesis
    by (auto simp: extract_data_def ebind_Inl_iff Let_def dest!: getitem_Inl)
next
  case (Some d2)
  with assms show ?thesis
    by (auto simp: extract_data_def ebind_Inl_iff Let_def dest!: getitem_Inl vstack_Inl)
qed

lemma never_raiseD:
  assumes "numerics_never_raise b model e"
  shows "vario_estimate b pos vals est ll mesh n \<noteq> Inl e"
    and "model dm ll \<noteq> Inl e"
    and "fit_variogram b m xs ys nug loss \<noteq> Inl e"
    and "ExtDrift b m pos vals d \<noteq> Inl e"
    and "krige b k pos d only_mean \<noteq> Inl e"
    and "simulate b k pos s d \<noteq> Inl e"
  using assms unfolding numerics_never_raise_def by (simp_all del: split_paired_All)

lemma fit_model_Inl:
  assumes "fit_model b model x = Inl e" and "numerics_never_raise b model e"
  shows "e = ValueError \<or> LogNormal b (int_data x) = Inl e"
  using assms(1) never_raiseD [OF assms(2)]
  by (auto simp: fit_model_def ebind_Inl_iff split: prod.splits if_splits)

lemma krige_call_Inl:
  assumes "krige_call b krig pos d only_mean name = Inl e" and "numerics_never_raise b model e"
  shows "e = ValueError"
  using assms(1) never_raiseD [OF assms(2)]
  by (auto simp: krige_call_def ebind_Inl_iff split: option.splits)

lemma krige_stage_Inl:
  assumes "krige_stage b m x = Inl e" and "numerics_never_raise b model e"
  shows "e = ValueError"
proof -
  from never_raiseD(4) [OF assms(2)] have "\<And>pos vals d. ExtDrift b m pos vals d \<noteq> Inl e" .
  with assms(1) show ?thesis
    by (auto simp: krige_stage_def ebind_Inl_iff dest: krige_call_Inl [OF _ assms(2)])
qed

lemma simulate_stage_Inl:
  assumes "simulate_stage b krig x iterations = Inl e" and "numerics_never_raise b model e"
  shows False
proof -
  from assms(1) have "spec_simulate b (system krig) (g_lat x, g_lon x) (external_drift_data x)
     (MasterRNG b 20170519) (nat iterations) = Inl e" by (simp add: simulate_stage_refines)
  then obtain s where "simulate b (system krig) (g_lat x, g_lon x) s (external_drift_data x) = Inl e"
    unfolding spec_simulate_def by (blast dest: emap_Inl)
  with never_raiseD(6) [OF assms(2)] show False by blast
qed

lemma compute_Inl:
  assumes "compute b df variable iterations model drift1 drift2 = Inl e"
    and "numerics_never_raise b model e"
  shows "(\<exists>k. e = KeyError k) \<or> e = ValueError \<or>
         (\<exists>x. extract_data (centroid b) df variable drift1 drift2 = Inr x \<and>
              LogNormal b (int_data x) = Inl e)"
  using assms(1)
  by (auto simp: compute_def ebind_Inl_iff
           dest: extract_data_Inl fit_model_Inl [OF _ assms(2)] krige_stage_Inl [OF _ assms(2)]
                 simulate_stage_Inl [OF _ assms(2)])

lemma geokrig_Inl:
  assumes "snd (geokrig b df variable iterations model drift1 drift2) = Inl e"
    and "numerics_never_raise b model e"
  shows "(\<exists>k. e = KeyError k) \<or> e = ValueError \<or>
         (\<exists>x. extract_data (centroid b) df variable drift1 drift2 = Inr x \<and>
              LogNormal b (int_data x) = Inl e)"
proof (cases "compute b df variable iterations model drift1 drift2")
  case (Inl e')
  with assms(1) have "e' = e" by (simp add: geokrig_def)
  with Inl compute_Inl [OF _ assms(2)] show ?thesis by blast
next
  case (Inr r)
  obtain krig flds where r: "r = (krig, flds)" by (cases r)
  from assms(1) Inr r have "ebind (obj_getitem (kfields krig) ''krig'') (setitem df ''cond_krig'') = Inl e"
    by (auto simp: geokrig_def split: sum.splits)
  then show ?thesis by (auto simp: ebind_Inl_iff dest: obj_getitem_Inl setitem_Inl)
qed

lemma geokrig_compute_Inl:
  "compute b df variable iterations model drift1 drift2 = Inl e \<Longrightarrow>
   geokrig b df variable iterations model drift1 drift2 = (df, Inl e)"
  by (simp add: geokrig_def)

lemma set_boolean_index_notnull:
  "Some v \<in> set (boolean_index (notnull target) target) \<longleftrightarrow> Some v \<in> set target"
proof -
  have "boolean_index (notnull target) target = filter (\<lambda>c. c \<noteq> None) target"
    unfolding boolean_index_def notnull_def
    by (induction target) simp_all
  then show ?thesis by simp
qed

subsection \<open>Kriging, column assignment, observed rows\<close>

lemma krige_stage_Inr:
  assumes "krige_stage b m x = Inr krig"
  shows "\<exists>k kr. ExtDrift b m (lat x, lon x) (int_data x) (external_drift_at_abortion x) = Inr k \<and>
           system krig = k \<and>
           krige b k (g_lat x, g_lon x) (external_drift_data x) False = Inr kr \<and>
           obj_getitem (kfields krig) ''krig'' = Inr kr"
  using assms
  by (auto simp: krige_stage_def krige_call_def ebind_Inr_iff obj_getitem_def AList.update_conv')

lemma update_fresh: "k \<notin> fst ` set al \<Longrightarrow> AList.update k v al = al @ [(k, v)]"
  by (induction al) auto

lemma getitem_setitem_other:
  "setitem df name vals = Inr df' \<Longrightarrow> other \<noteq> name \<Longrightarrow> getitem df' other = getitem df other"
  by (auto simp: setitem_def getitem_def AList.update_conv' split: if_splits)

lemma extract_observed:
  assumes "wf_frame df" and "getitem df variable = Inr target"
    and "extract_data cen df variable drift1 drift2 = Inr x"
  shows "lat x = map (\<lambda>i. fst (cen (geometry df ! i))) (observed_rows target)"
    and "lon x = map (\<lambda>i. snd (cen (geometry df ! i))) (observed_rows target)"
    and "int_data x = map (\<lambda>i. target ! i) (observed_rows target)"
proof -
  from assms(1,2) have "length target = n_units df" by (rule getitem_length)
  then have g: "length (geometry df) = length target" by (simp add: n_units_def)
  from extract_data_Inr [OF assms(3)] assms(2) have x:
    "lat x = map (\<lambda>g. fst (cen g)) (boolean_index (notnull target) (geometry df))"
    "lon x = map (\<lambda>g. snd (cen g)) (boolean_index (notnull target) (geometry df))"
    "int_data x = boolean_index (notnull target) target"
    by auto
  have b3: "boolean_index (notnull target) target = map (\<lambda>i. target ! i) (observed_rows target)"
    by (simp only: boolean_index_observed)
  have b4: "boolean_index (notnull target) (geometry df)
              = map (\<lambda>i. geometry df ! i) (observed_rows target)"
    using g by (simp only: boolean_index_observed)
  show "lat x = map (\<lambda>i. fst (cen (geometry df ! i))) (observed_rows target)"
    unfolding x b4 by (simp add: o_def)
  show "lon x = map (\<lambda>i. snd (cen (geometry df ! i))) (observed_rows target)"
    unfolding x b4 by (simp add: o_def)
  show "int_data x = map (\<lambda>i. target ! i) (observed_rows target)"
    unfolding x b3 ..
qed

lemma fields_rect:
  assumes "one_value_per_location b"
    and "extract_data cen df variable drift1 drift2 = Inr x"
    and "spec_simulate b k (g_lat x, g_lon x) d rng n = Inr flds"
    and "f \<in> set flds"
  shows "length f = n_units df"
proof -
  from extract_g_lat [OF assms(2)] have gl: "length (g_lat x) = n_units df"
    "length (g_lon x) = n_units df" by (simp_all add: n_units_def)
  from spec_simulate_nth [OF assms(3)] assms(4) obtain r where
    "simulate b k (g_lat x, g_lon x) (sub_seeds b rng n ! r) d = Inr f"
    by (auto simp: in_set_conv_nth)
  with assms(1) gl show ?thesis unfolding one_value_per_location_def by metis
qed

subsection \<open>The small library meets the specification's requirements\<close>

lemmas demo_defs = demo_def demo_model_def demo_LogNormal_def demo_ExtDrift_def demo_field_def

lemmas run_defs = geokrig_def compute_def extract_data_def fit_model_def krige_stage_def
  simulate_stage_def krige_call_def srf_call_def CondSRF_def set_pos_def obj_getitem_def
  getitem_def select_rows_def boolean_index_def notnull_def setitem_def n_units_def vstack_def
  pd_DataFrame_def frame_T_def field_name_def dict_key_def digit_char_def str_nat.simps upt_rec

lemma demo_one_value: "one_value_per_location demo"
  by (auto simp: one_value_per_location_def demo_def demo_field_def)

lemma demo_strict: "strict_conditioning demo"
  unfolding strict_conditioning_def
proof (intro allI impI)
  fix m :: real and cla clo :: "real list" and cval :: "cell list" and cdrift d :: ndarray
    and k :: demo_system and la lo :: "real list" and s :: nat and fld :: "cell list"
    and j i :: nat
  assume ext: "ExtDrift demo m (cla, clo) cval cdrift = Inr k"
    and sim: "simulate demo k (la, lo) s d = Inr fld"
    and lc: "length cla = length clo" and lv: "length cval = length cla"
    and ll: "length la = length lo"
    and j: "j < length cla" and i: "i < length la"
    and p1: "la ! i = cla ! j" and p2: "lo ! i = clo ! j"
  from ext have dist: "distinct (zip cla clo)" and k: "k = zip (zip cla clo) cval"
    by (auto simp: demo_def demo_ExtDrift_def split: if_splits)
  from lc lv j have "map_of (zip (zip cla clo) cval) (zip cla clo ! j) = Some (cval ! j)"
    by (intro map_of_zip_nth) (simp_all add: dist)
  with lc j have look: "map_of k (cla ! j, clo ! j) = Some (cval ! j)" by (simp add: k)
  from sim have "fld = map (\<lambda>p. case map_of k p of Some v \<Rightarrow> v | None \<Rightarrow> Some (real s)) (zip la lo)"
    by (simp add: demo_def demo_field_def)
  with i ll p1 p2 look show "fld ! i = cval ! j" by simp
qed

lemma demo_lognormal: "lognormal_domain demo"
  unfolding lognormal_domain_def
  by (auto simp: demo_def demo_LogNormal_def list_ex_iff split: option.splits)

lemma demo_nugget: "nugget_not_estimated demo demo_model"
  by (simp add: nugget_not_estimated_def demo_def demo_model_def)

lemma demo_never_raises:
  "e \<noteq> SingularSystemError \<Longrightarrow> numerics_never_raise demo demo_model e"
  by (auto simp: numerics_never_raise_def demo_def demo_model_def demo_ExtDrift_def)

lemma wf_units3: "wf_frame units3"
  by (simp add: wf_frame_def units3_def n_units_def)

lemma demo_extract_units3:
  "extract_data (centroid demo) units3 ''y'' ''d1'' None =
   Inr \<lparr>lat = [- 100, - 102], lon = [40, 42], int_data = [Some 5, Some 7],
        g_lat = [- 100, - 101, - 102], g_lon = [40, 41, 42],
        external_drift_data = Arr1 [Some 1, Some 2, Some 3],
        external_drift_at_abortion = Arr1 [Some 1, Some 3]\<rparr>"
  by (simp add: run_defs demo_defs units3_def)

lemma demo_extract2_units3:
  "extract_data (centroid demo) units3 ''y'' ''d1'' (Some ''d2'') =
   Inr \<lparr>lat = [- 100, - 102], lon = [40, 42], int_data = [Some 5, Some 7],
        g_lat = [- 100, - 101, - 102], g_lon = [40, 41, 42],
        external_drift_data = Arr2 [[Some 1, Some 2, Some 3], [Some 4, Some 5, Some 6]],
        external_drift_at_abortion = Arr2 [[Some 1, Some 3], [Some 4, Some 6]]\<rparr>"
  by (simp add: run_defs demo_defs units3_def)

lemma demo_compute_units3:
  "compute demo units3 ''y'' 2 demo_model ''d1'' None =
   Inr (\<lparr>system = [((- 100, 40), Some 5), ((- 102, 42), Some 7)],
         kpos = Some ([- 100, - 101, - 102], [40, 41, 42]),
         kfields = [(''field'', [Some 5, Some 0, Some 7]),
                    (''krig'', [Some 5, Some 0, Some 7]),
                    (''mean_field'', [Some 0, Some 0, Some 0])]\<rparr>,
        [[Some 5, Some 20170519, Some 7], [Some 5, Some 20170520, Some 7]])"
  by (simp add: run_defs demo_defs units3_def)

lemma demo_geokrig_units3:
  "geokrig demo units3 ''y'' 2 demo_model ''d1'' None =
   (\<lparr>geometry = [(- 100, 40), (- 101, 41), (- 102, 42)],
     columns = [(''y'', [Some 5, None, Some 7]), (''d1'', [Some 1, Some 2, Some 3]),
                (''d2'', [Some 4, Some 5, Some 6]),
                (''cond_krig'', [Some 5, Some 0, Some 7])]\<rparr>,
    Inr \<lparr>n_rows = 3, n_cols = 2,
         cells = [[Some 5, Some 5], [Some 20170519, Some 20170520], [Some 7, Some 7]]\<rparr>)"
  by (simp add: run_defs demo_defs units3_def)

lemma demo_geokrig_zero:
  "geokrig demo units3 ''y'' 0 demo_model ''d1'' None =
   (\<lparr>geometry = [(- 100, 40), (- 101, 41), (- 102, 42)],
     columns = [(''y'', [Some 5, None, Some 7]), (''d1'', [Some 1, Some 2, Some 3]),
                (''d2'', [Some 4, Some 5, Some 6]),
                (''cond_krig'', [Some 5, Some 0, Some 7])]\<rparr>,
    Inr \<lparr>n_rows = 0, n_cols = 0, cells = []\<rparr>)"
  by (simp add: run_defs demo_defs units3_def)

lemma demo_geokrig_again:
  "geokrig demo units3_again ''y'' 1 demo_model ''d1'' None =
   (\<lparr>geometry = [(- 100, 40), (- 101, 41), (- 102, 42)],
     columns = [(''y'', [Some 5, None, Some 7]),
                (''cond_krig'', [Some 5, Some 0, Some 7]),
                (''d1'', [Some 1, Some 2, Some 3]),
                (''d2'', [Some 4, Some 5, Some 6])]\<rparr>,
    Inr \<lparr>n_rows = 3, n_cols = 1, cells = [[Some 5], [Some 20170519], [Some 7]]\<rparr>)"
  by (simp add: run_defs demo_defs units3_again_def)

lemma demo_geokrig_nonpositive:
  "geokrig demo units3_nonpositive ''y'' 2 demo_model ''d1'' None =
   (units3_nonpositive, Inl NumericError)"
  by (simp add: run_defs demo_defs units3_nonpositive_def)

section \<open>The claims\<close>

subsection \<open>C1\<close>

text \<open>
  C1 (as stated, refuted). The claim asks for a returned table with one row per realization
  (\<open>iterations\<close> rows) and one column per spatial unit. Two iterations on the three-unit
  table return three rows and two columns: line 142 transposes the table, as the docstring
  of \<open>geokrig\<close> announces (``each row corresponds to a spatial unit, and each column is one
  of the realizations'').
\<close>

theorem realization_table_rows_counterexample:
  "snd (geokrig demo units3 ''y'' 2 demo_model ''d1'' None) =
   Inr \<lparr>n_rows = 3, n_cols = 2,
        cells = [[Some 5, Some 5], [Some 20170519, Some 20170520], [Some 7, Some 7]]\<rparr>"
  using demo_geokrig_units3 by simp

text \<open>
  C1 (amended). For every successful call with \<open>iterations\<close> at least one on a table of
  \<open>N\<close> units, with a library that returns one value per target location, the returned table
  has exactly \<open>N\<close> rows and exactly \<open>iterations\<close> columns; column \<open>r\<close> holds realization
  \<open>r\<close>, the field simulated for the \<open>r\<close>-th sub-seed, and row \<open>c\<close> belongs to the \<open>c\<close>-th row
  of the input table: the target locations at which every field is simulated are the
  centroids of the table's rows, in table order, and entry \<open>c\<close> of a field is the cell of
  row \<open>c\<close>.
\<close>

theorem realization_table_layout:
  assumes "one_value_per_location b"
    and "1 \<le> iterations"
    and "extract_data (centroid b) df variable drift1 drift2 = Inr x"
    and "compute b df variable iterations model drift1 drift2 = Inr (krig, flds)"
    and "geokrig b df variable iterations model drift1 drift2 = (df', Inr M)"
  shows "g_lat x = map (\<lambda>g. fst (centroid b g)) (geometry df) \<and>
         g_lon x = map (\<lambda>g. snd (centroid b g)) (geometry df) \<and>
         n_rows M = n_units df \<and> n_cols M = nat iterations \<and>
         (\<forall>r<nat iterations.
            simulate b (system krig) (g_lat x, g_lon x)
              (sub_seeds b (MasterRNG b 20170519) (nat iterations) ! r) (external_drift_data x)
              = Inr (flds ! r) \<and>
            (\<forall>c<n_units df. cells M ! c ! r = flds ! r ! c))"
proof -
  let ?n = "nat iterations" and ?N = "n_units df"
  note tgt = extract_g_lat [OF assms(3)]
  from assms(4) assms(3) have st: "simulate_stage b krig x iterations = Inr flds"
    by (auto simp: compute_Inr_iff)
  then have sp: "spec_simulate b (system krig) (g_lat x, g_lon x) (external_drift_data x)
                   (MasterRNG b 20170519) ?n = Inr flds"
    by (simp add: simulate_stage_refines)
  from spec_simulate_nth [OF sp] have len: "length flds = ?n"
    and sim: "\<And>r. r < ?n \<Longrightarrow> simulate b (system krig) (g_lat x, g_lon x)
              (sub_seeds b (MasterRNG b 20170519) ?n ! r) (external_drift_data x) = Inr (flds ! r)"
    by simp_all
  from extract_g_lat [OF assms(3)] have gl: "length (g_lat x) = ?N" "length (g_lon x) = ?N"
    by (simp_all add: n_units_def)
  have rect: "\<And>f. f \<in> set flds \<Longrightarrow> length f = ?N"
  proof -
    fix f assume "f \<in> set flds"
    then obtain r where r: "r < ?n" "f = flds ! r" using len by (auto simp: in_set_conv_nth)
    from sim [OF r(1)] assms(1) gl r(2) show "length f = ?N"
      unfolding one_value_per_location_def by metis
  qed
  from assms(2) len have ne: "flds \<noteq> []" by auto
  from assms(5) assms(4) have M: "M = frame_T (pd_DataFrame flds)"
    by (auto simp: geokrig_Inr_iff)
  with frame_T_rect [OF rect ne] len sim
  have "n_rows M = n_units df \<and> n_cols M = nat iterations \<and>
         (\<forall>r<nat iterations.
            simulate b (system krig) (g_lat x, g_lon x)
              (sub_seeds b (MasterRNG b 20170519) (nat iterations) ! r) (external_drift_data x)
              = Inr (flds ! r) \<and>
            (\<forall>c<n_units df. cells M ! c ! r = flds ! r ! c))"
    by simp
  with tgt show ?thesis by blast
qed

theorem realization_table_layout_witness:
  "one_value_per_location demo \<and> (1::int) \<le> 2 \<and>
   [- 100, - 101, - 102] = map (\<lambda>g. fst (centroid demo g)) (geometry units3) \<and>
   [40, 41, 42] = map (\<lambda>g. snd (centroid demo g)) (geometry units3) \<and>
   n_rows \<lparr>n_rows = 3, n_cols = 2,
       cells = [[Some 5, Some 5], [Some 20170519, Some 20170520], [Some 7, Some 7]]\<rparr>
     = n_units units3 \<and>
   n_cols \<lparr>n_rows = 3, n_cols = 2,
       cells = [[Some 5, Some 5], [Some 20170519, Some 20170520], [Some 7, Some 7]]\<rparr> = 2 \<and>
   simulate demo [((- 100, 40), Some 5), ((- 102, 42), Some 7)]
     ([- 100, - 101, - 102], [40, 41, 42])
     (sub_seeds demo (MasterRNG demo 20170519) 2 ! 1) (Arr1 [Some 1, Some 2, Some 3])
     = Inr [Some 5, Some 20170520, Some 7] \<and>
   [[Some 5, Some 5], [Some 20170519, Some 20170520], [Some 7, Some (7::real)]] ! 1 ! 1 =
     [[Some 5, Some 20170519, Some 7], [Some 5, Some 20170520, Some 7]] ! 1 ! 1"
proof -
  have le: "(1::int) \<le> 2" by simp
  note t = realization_table_layout
         [OF demo_one_value le demo_extract_units3 demo_compute_units3 demo_geokrig_units3]
  from t [THEN conjunct1] t [THEN conjunct2, THEN conjunct1]
  have g: "[- 100, - 101, - 102] = map (\<lambda>g. fst (centroid demo g)) (geometry units3)"
    "[40, 41, 42] = map (\<lambda>g. snd (centroid demo g)) (geometry units3)"
    by simp_all
  from t [THEN conjunct2, THEN conjunct2]
  have "simulate demo [((- 100, 40), Some 5), ((- 102, 42), Some 7)]
          ([- 100, - 101, - 102], [40, 41, 42])
          (sub_seeds demo (MasterRNG demo 20170519) 2 ! 1) (Arr1 [Some 1, Some 2, Some 3])
        = Inr [Some 5, Some 20170520, Some 7]"
    by simp
  with g show ?thesis by (simp add: demo_one_value units3_def n_units_def)
qed

subsection \<open>C2\<close>

text \<open>
  C2. Strict conditioning: for every row of the table whose target value is present and
  every realization of a successful call, the returned value for that row equals the
  observed target value. The guarantee of the simulator itself (a simulated field takes
  the condition value where a target location is a condition location) is the
  specification's; what is proved of the source is that observed centroids and observed
  values are handed over aligned, that the target locations are the centroids of all rows
  in table order with the same coordinate order, and that the value lands in that row of
  the returned table.
\<close>

theorem observed_values_reproduced:
  assumes "strict_conditioning b" and "one_value_per_location b" and "wf_frame df"
    and "getitem df variable = Inr target"
    and "geokrig b df variable iterations model drift1 drift2 = (df', Inr M)"
    and "i < n_units df" and "target ! i = Some v" and "r < nat iterations"
  shows "cells M ! i ! r = Some v"
proof -
  let ?cen = "centroid b" and ?obs = "observed_rows target"
  from assms(5) obtain krig flds where
    c: "compute b df variable iterations model drift1 drift2 = Inr (krig, flds)"
    and M: "M = frame_T (pd_DataFrame flds)" by (auto simp: geokrig_Inr_iff)
  from c obtain x m where x: "extract_data ?cen df variable drift1 drift2 = Inr x"
    and ks: "krige_stage b m x = Inr krig"
    and ss: "simulate_stage b krig x iterations = Inr flds" by (auto simp: compute_Inr_iff)
  from krige_stage_Inr [OF ks] have
    ext: "ExtDrift b m (lat x, lon x) (int_data x) (external_drift_at_abortion x) = Inr (system krig)"
    by auto
  from ss have sp: "spec_simulate b (system krig) (g_lat x, g_lon x) (external_drift_data x)
                      (MasterRNG b 20170519) (nat iterations) = Inr flds"
    by (simp add: simulate_stage_refines)
  from spec_simulate_nth [OF sp] assms(8) have len: "length flds = nat iterations"
    and sim: "simulate b (system krig) (g_lat x, g_lon x)
                (sub_seeds b (MasterRNG b 20170519) (nat iterations) ! r) (external_drift_data x)
              = Inr (flds ! r)" by simp_all
  have rect: "\<And>f. f \<in> set flds \<Longrightarrow> length f = n_units df"
    by (rule fields_rect [OF assms(2) x sp])
  from len assms(8) have ne: "flds \<noteq> []" and rin: "flds ! r \<in> set flds" by auto
  from frame_T_rect [OF rect ne] M assms(6,8) len have cell: "cells M ! i ! r = flds ! r ! i"
    by simp
  from rect [OF rin] have flen: "length (flds ! r) = n_units df" .
  from extract_g_lat [OF x] have gl: "g_lat x = map (\<lambda>g. fst (?cen g)) (geometry df)"
    and go: "g_lon x = map (\<lambda>g. snd (?cen g)) (geometry df)" by simp_all
  note ob = extract_observed [OF assms(3,4) x]
  from assms(3,4) have tl: "length target = n_units df" by (rule getitem_length)
  with assms(6,7) have "i \<in> set ?obs" by (simp add: observed_rows_def)
  then obtain j where j: "j < length ?obs" "?obs ! j = i" by (auto simp: in_set_conv_nth)
  have p1: "g_lat x ! i = lat x ! j" using gl ob(1) j assms(6) by (simp add: n_units_def)
  have p2: "g_lon x ! i = lon x ! j" using go ob(2) j assms(6) by (simp add: n_units_def)
  have p3: "int_data x ! j = Some v" using ob(3) j assms(7) by simp
  have l1: "length (lat x) = length (lon x)" "length (int_data x) = length (lat x)"
    "j < length (lat x)" using ob j by simp_all
  have l2: "length (g_lat x) = length (g_lon x)" "length (flds ! r) = length (g_lat x)"
    "i < length (g_lat x)" using gl go flen assms(6) by (simp_all add: n_units_def)
  from assms(1) [unfolded strict_conditioning_def, rule_format, OF ext sim l1(1) l1(2) l2(1) l2(2) l1(3) l2(3) p1 p2]
  have "flds ! r ! i = int_data x ! j" .
  with cell p3 show ?thesis by simp
qed

theorem observed_values_reproduced_witness:
  "strict_conditioning demo \<and> one_value_per_location demo \<and> wf_frame units3 \<and>
   cells \<lparr>n_rows = 3, n_cols = 2,
       cells = [[Some 5, Some 5], [Some 20170519, Some 20170520], [Some 7, Some 7]]\<rparr> ! 2 ! 1
     = Some 7"
proof -
  have g: "getitem units3 ''y'' = Inr [Some 5, None, Some 7]"
    by (simp add: getitem_def units3_def)
  have i: "2 < n_units units3" by (simp add: n_units_def units3_def)
  have v: "[Some 5, None, Some (7::real)] ! 2 = Some 7" by simp
  have r: "1 < nat 2" by simp
  from observed_values_reproduced
         [OF demo_strict demo_one_value wf_units3 g demo_geokrig_units3 i v r]
  show ?thesis by (simp add: demo_strict demo_one_value wf_units3)
qed

subsection \<open>C3\<close>

text \<open>
  C3. All simulation randomness comes from one master seed through a sub-seed sequence:
  the computation of \<open>geokrig\<close> up to line 137 is the extraction, the fit and the kriging
  followed by the simulation of the fields for the first \<open>iterations\<close> sub-seeds drawn, in
  order, from the master generator seeded with the literal 20170519. Nothing else of the
  generator is used, and the result is a function of the table, the parameters and the
  count; so two runs on the same arguments return the same table.
\<close>

theorem randomness_from_master_seed:
  "compute b df variable iterations model drift1 drift2 =
     ebind (extract_data (centroid b) df variable drift1 drift2) (\<lambda>x.
     ebind (fit_model b model x) (\<lambda>m.
     ebind (krige_stage b m x) (\<lambda>krig.
     ebind (spec_simulate b (system krig) (g_lat x, g_lon x) (external_drift_data x)
              (MasterRNG b 20170519) (nat iterations))
       (\<lambda>flds. Inr (krig, flds)))))"
  by (simp add: compute_def simulate_stage_refines)

text \<open>
  C3 at a concrete input: two iterations use the sub-seeds 20170519 and 20170520 of the
  counting generator, in this order.
\<close>

theorem randomness_from_master_seed_witness:
  "compute demo units3 ''y'' 2 demo_model ''d1'' None =
   Inr (\<lparr>system = [((- 100, 40), Some 5), ((- 102, 42), Some 7)],
         kpos = Some ([- 100, - 101, - 102], [40, 41, 42]),
         kfields = [(''field'', [Some 5, Some 0, Some 7]),
                    (''krig'', [Some 5, Some 0, Some 7]),
                    (''mean_field'', [Some 0, Some 0, Some 0])]\<rparr>,
        [[Some 5, Some 20170519, Some 7], [Some 5, Some 20170520, Some 7]])"
  unfolding randomness_from_master_seed demo_extract_units3
  by (simp add: fit_model_def krige_stage_def krige_call_def spec_simulate_def demo_defs
        numeral_2_eq_2)

subsection \<open>C4\<close>

text \<open>
  C4 (as stated, refuted). The claim has the entry point raise \<open>ConfigurationError\<close> and
  produce no output when \<open>iterations\<close> is below one. With zero iterations the call on the
  three-unit table succeeds: \<open>range(0)\<close> is empty, the loop body never runs, the kriging
  column is added to the table and an empty table is returned. The source has no check of
  its parameters anywhere.
\<close>

theorem iterations_zero_counterexample:
  "geokrig demo units3 ''y'' 0 demo_model ''d1'' None =
   (\<lparr>geometry = [(- 100, 40), (- 101, 41), (- 102, 42)],
     columns = [(''y'', [Some 5, None, Some 7]), (''d1'', [Some 1, Some 2, Some 3]),
                (''d2'', [Some 4, Some 5, Some 6]),
                (''cond_krig'', [Some 5, Some 0, Some 7])]\<rparr>,
    Inr \<lparr>n_rows = 0, n_cols = 0, cells = []\<rparr>)"
  using demo_geokrig_zero by simp

text \<open>
  C4 (amended). The entry point checks none of its parameters and raises no
  \<open>ConfigurationError\<close> of its own: when no call into the numerical library returns that
  error, neither does \<open>geokrig\<close>. In particular \<open>iterations\<close> below one is accepted: the
  outcome is that of the extraction, the fit and the kriging alone, and when these succeed
  the kriging column is assigned and the empty table is returned.
\<close>

theorem no_configuration_check:
  assumes "\<forall>xs. LogNormal b xs \<noteq> Inl ConfigurationError"
    and "numerics_never_raise b model ConfigurationError"
  shows "snd (geokrig b df variable iterations model drift1 drift2) \<noteq> Inl ConfigurationError \<and>
         (iterations < 1 \<longrightarrow>
            geokrig b df variable iterations model drift1 drift2 =
              (case ebind (extract_data (centroid b) df variable drift1 drift2) (\<lambda>x.
                    ebind (fit_model b model x) (\<lambda>m. krige_stage b m x)) of
                 Inl e \<Rightarrow> (df, Inl e)
               | Inr krig \<Rightarrow>
                   (case ebind (obj_getitem (kfields krig) ''krig'') (setitem df ''cond_krig'') of
                      Inl e \<Rightarrow> (df, Inl e)
                    | Inr df' \<Rightarrow> (df', Inr \<lparr>n_rows = 0, n_cols = 0, cells = []\<rparr>))))"
proof
  show "snd (geokrig b df variable iterations model drift1 drift2) \<noteq> Inl ConfigurationError"
  proof
    assume "snd (geokrig b df variable iterations model drift1 drift2) = Inl ConfigurationError"
    from geokrig_Inl [OF this assms(2)] assms(1) show False by auto
  qed
next
  show "iterations < 1 \<longrightarrow>
            geokrig b df variable iterations model drift1 drift2 =
              (case ebind (extract_data (centroid b) df variable drift1 drift2) (\<lambda>x.
                    ebind (fit_model b model x) (\<lambda>m. krige_stage b m x)) of
                 Inl e \<Rightarrow> (df, Inl e)
               | Inr krig \<Rightarrow>
                   (case ebind (obj_getitem (kfields krig) ''krig'') (setitem df ''cond_krig'') of
                      Inl e \<Rightarrow> (df, Inl e)
                    | Inr df' \<Rightarrow> (df', Inr \<lparr>n_rows = 0, n_cols = 0, cells = []\<rparr>)))"
  proof
    assume "iterations < 1"
    then have n: "nat iterations = 0" by simp
    have st: "\<And>krig x. simulate_stage b krig x iterations = Inr []"
      by (simp add: simulate_stage_def n)
    show "geokrig b df variable iterations model drift1 drift2 =
              (case ebind (extract_data (centroid b) df variable drift1 drift2) (\<lambda>x.
                    ebind (fit_model b model x) (\<lambda>m. krige_stage b m x)) of
                 Inl e \<Rightarrow> (df, Inl e)
               | Inr krig \<Rightarrow>
                   (case ebind (obj_getitem (kfields krig) ''krig'') (setitem df ''cond_krig'') of
                      Inl e \<Rightarrow> (df, Inl e)
                    | Inr df' \<Rightarrow> (df', Inr \<lparr>n_rows = 0, n_cols = 0, cells = []\<rparr>)))"
      by (simp add: geokrig_def compute_def st frame_T_empty ebind_def split: sum.splits)
  qed
qed

theorem no_configuration_check_witness:
  "numerics_never_raise demo demo_model ConfigurationError \<and>
   snd (geokrig demo units3 ''y'' 0 demo_model ''d1'' None) \<noteq> Inl ConfigurationError"
proof -
  have n: "\<forall>xs. LogNormal demo xs \<noteq> Inl ConfigurationError"
    by (simp add: demo_def demo_LogNormal_def)
  have m: "numerics_never_raise demo demo_model ConfigurationError"
    by (rule demo_never_raises) simp
  from no_configuration_check [OF n m, of units3 "''y''" 0 "''d1''" None] m
  show ?thesis by blast
qed

subsection \<open>C5\<close>

text \<open>
  C5. With a normalizer that fails, with \<open>NumericError\<close>, exactly on data holding a
  non-positive value (the specification's normalizer; the source calls it on line 85 and has
  no check of its own), and no other library call raising that error: on a table that has
  the named columns, \<open>geokrig\<close> raises \<open>NumericError\<close> if and only if some observed target
  value is non-positive. The normalizer is given the observed target values alone, and it
  is the first call into the library.
\<close>

theorem numeric_error_iff_nonpositive:
  assumes "lognormal_domain b" and "numerics_never_raise b model NumericError"
    and "wf_frame df"
    and "getitem df variable = Inr target" and "getitem df drift1 = Inr c1"
    and "\<forall>d2. drift2 = Some d2 \<longrightarrow> (\<exists>c2. getitem df d2 = Inr c2)"
  shows "snd (geokrig b df variable iterations model drift1 drift2) = Inl NumericError \<longleftrightarrow>
         (\<exists>i<n_units df. \<exists>v. target ! i = Some v \<and> v \<le> 0)"
proof -
  from extract_data_succeeds [OF assms(3,4,5,6)] obtain x where
    x: "extract_data (centroid b) df variable drift1 drift2 = Inr x" by blast
  from extract_data_Inr [OF x] assms(4) have
    idata: "int_data x = boolean_index (notnull target) target" by auto
  from assms(3,4) have len: "length target = n_units df" by (rule getitem_length)
  have obs: "(\<exists>v. Some v \<in> set (int_data x) \<and> v \<le> 0) \<longleftrightarrow>
             (\<exists>i<n_units df. \<exists>v. target ! i = Some v \<and> v \<le> 0)"
    unfolding idata set_boolean_index_notnull using len
    by (auto simp: in_set_conv_nth)
  from assms(1) have dom: "case LogNormal b (int_data x) of
              Inl e \<Rightarrow> e = NumericError \<and> (\<exists>v. Some v \<in> set (int_data x) \<and> v \<le> 0)
            | Inr n \<Rightarrow> \<not> (\<exists>v. Some v \<in> set (int_data x) \<and> v \<le> 0)"
    unfolding lognormal_domain_def by blast
  show ?thesis
  proof
    assume "snd (geokrig b df variable iterations model drift1 drift2) = Inl NumericError"
    from geokrig_Inl [OF this assms(2)] x have "LogNormal b (int_data x) = Inl NumericError"
      by auto
    with dom obs show "\<exists>i<n_units df. \<exists>v. target ! i = Some v \<and> v \<le> 0" by simp
  next
    assume "\<exists>i<n_units df. \<exists>v. target ! i = Some v \<and> v \<le> 0"
    with obs dom have "LogNormal b (int_data x) = Inl NumericError"
      by (cases "LogNormal b (int_data x)") auto
    then have "compute b df variable iterations model drift1 drift2 = Inl NumericError"
      using x by (simp add: compute_def fit_model_def)
    then show "snd (geokrig b df variable iterations model drift1 drift2) = Inl NumericError"
      by (simp add: geokrig_compute_Inl)
  qed
qed

theorem numeric_error_iff_nonpositive_witness:
  "lognormal_domain demo \<and> numerics_never_raise demo demo_model NumericError \<and>
   wf_frame units3_nonpositive \<and>
   snd (geokrig demo units3_nonpositive ''y'' 2 demo_model ''d1'' None) = Inl NumericError"
proof -
  have m: "numerics_never_raise demo demo_model NumericError"
    by (rule demo_never_raises) simp
  have wf: "wf_frame units3_nonpositive"
    by (simp add: wf_frame_def units3_nonpositive_def n_units_def)
  have g: "getitem units3_nonpositive ''y'' = Inr [Some 5, None, Some 0]"
    by (simp add: getitem_def units3_nonpositive_def)
  have d: "getitem units3_nonpositive ''d1'' = Inr [Some 1, Some 2, Some 3]"
    by (simp add: getitem_def units3_nonpositive_def)
  have o: "\<forall>d2. (None :: string option) = Some d2 \<longrightarrow>
             (\<exists>c2. getitem units3_nonpositive d2 = Inr c2)" by simp
  have "[Some 5, None, Some (0::real)] ! 2 = Some 0 \<and> (0::real) \<le> 0" by simp
  moreover have "2 < n_units units3_nonpositive"
    by (simp add: n_units_def units3_nonpositive_def)
  ultimately have ex: "\<exists>i<n_units units3_nonpositive. \<exists>v.
      [Some 5, None, Some (0::real)] ! i = Some v \<and> v \<le> 0" by blast
  from numeric_error_iff_nonpositive [OF demo_lognormal m wf g d o, of 2] ex
  have "snd (geokrig demo units3_nonpositive ''y'' 2 demo_model ''d1'' None) = Inl NumericError"
    by blast
  with demo_lognormal m wf show ?thesis by blast
qed

subsection \<open>C6\<close>

text \<open>
  C6. The source builds the model with \<open>model(dim=2, latlon=True)\<close>, giving no nugget, and
  fits it with \<open>nugget=False\<close>. With a library in which a freshly built model has nugget
  zero and a fit with the nugget flag off does not estimate the nugget (the
  specification's fitter), every model that the fitting stage returns has nugget exactly
  zero, whatever the data.
\<close>

theorem fitted_nugget_is_zero:
  assumes "nugget_not_estimated b model" and "fit_model b model x = Inr m"
  shows "nugget b m = 0"
proof -
  from assms(2) obtain m0 xs ys where
    "model 2 True = Inr m0" "fit_variogram b m0 xs ys False ''cauchy'' = Inr m"
    by (auto simp: fit_model_def ebind_Inr_iff split: prod.splits if_splits)
  with assms(1) show ?thesis unfolding nugget_not_estimated_def by metis
qed

theorem fitted_nugget_is_zero_witness:
  "nugget_not_estimated demo demo_model \<and> nugget demo 0 = 0"
proof -
  have f: "fit_model demo demo_model
             \<lparr>lat = [- 100, - 102], lon = [40, 42], int_data = [Some 5, Some 7],
              g_lat = [- 100, - 101, - 102], g_lon = [40, 41, 42],
              external_drift_data = Arr1 [Some 1, Some 2, Some 3],
              external_drift_at_abortion = Arr1 [Some 1, Some 3]\<rparr> = Inr 0"
    by (simp add: fit_model_def demo_defs)
  from fitted_nugget_is_zero [OF demo_nugget f] demo_nugget show ?thesis by blast
qed

subsection \<open>C7\<close>

text \<open>
  C7 (as stated, refuted). The claim has every successful call add one new column and leave
  all existing columns unchanged. On a table that already has a column \<open>cond_krig\<close> (as
  after an earlier call) the call succeeds, the table has as many columns as before, and
  the values of the existing column \<open>cond_krig\<close> are replaced.
\<close>

theorem existing_cond_krig_counterexample:
  "snd (geokrig demo units3_again ''y'' 1 demo_model ''d1'' None) =
     Inr \<lparr>n_rows = 3, n_cols = 1, cells = [[Some 5], [Some 20170519], [Some 7]]\<rparr> \<and>
   length (columns (fst (geokrig demo units3_again ''y'' 1 demo_model ''d1'' None))) =
     length (columns units3_again) \<and>
   getitem units3_again ''cond_krig'' = Inr [Some 9, Some 9, Some 9] \<and>
   getitem (fst (geokrig demo units3_again ''y'' 1 demo_model ''d1'' None)) ''cond_krig'' =
     Inr [Some 5, Some 0, Some 7]"
  using demo_geokrig_again by (simp add: getitem_def units3_again_def)

text \<open>
  C7 (amended). On every successful call the only mutation of the caller's table is the
  assignment of the column named \<open>cond_krig\<close>, which receives the kriging estimate (the
  field kriged with \<open>only_mean\<close> off at the target locations, which are the centroids of
  the table's rows in table order, one value per row): the column is appended as one new column when the table had none of that
  name and otherwise takes the place of the existing one; the geometry and every column of
  another name are unchanged.
\<close>

theorem only_cond_krig_is_assigned:
  assumes "geokrig b df variable iterations model drift1 drift2 = (df', Inr M)"
    and "extract_data (centroid b) df variable drift1 drift2 = Inr x"
    and "compute b df variable iterations model drift1 drift2 = Inr (krig, flds)"
  shows "geometry df' = geometry df \<and>
         (\<exists>kr. krige b (system krig) (g_lat x, g_lon x) (external_drift_data x) False = Inr kr \<and>
               length kr = n_units df \<and>
               columns df' = AList.update ''cond_krig'' kr (columns df) \<and>
               (''cond_krig'' \<notin> fst ` set (columns df) \<longrightarrow>
                  columns df' = columns df @ [(''cond_krig'', kr)])) \<and>
         (\<forall>name. name \<noteq> ''cond_krig'' \<longrightarrow> getitem df' name = getitem df name) \<and>
         g_lat x = map (\<lambda>g. fst (centroid b g)) (geometry df) \<and>
         g_lon x = map (\<lambda>g. snd (centroid b g)) (geometry df)"
proof -
  note tgt = extract_g_lat [OF assms(2)]
  from assms(3) assms(2) obtain m where ks: "krige_stage b m x = Inr krig"
    by (auto simp: compute_Inr_iff)
  from krige_stage_Inr [OF ks] obtain kr where
    kr: "krige b (system krig) (g_lat x, g_lon x) (external_drift_data x) False = Inr kr"
    and get: "obj_getitem (kfields krig) ''krig'' = Inr kr" by auto
  from assms(1) assms(3) get have set: "setitem df ''cond_krig'' kr = Inr df'"
    by (auto simp: geokrig_Inr_iff)
  then have len: "length kr = n_units df"
    and cols: "columns df' = AList.update ''cond_krig'' kr (columns df)"
    and geo: "geometry df' = geometry df"
    by (auto simp: setitem_def split: if_splits)
  from cols have "''cond_krig'' \<notin> fst ` set (columns df) \<longrightarrow>
                  columns df' = columns df @ [(''cond_krig'', kr)]"
    by (simp add: update_fresh)
  with kr len cols geo getitem_setitem_other [OF set]
  have "geometry df' = geometry df \<and>
         (\<exists>kr. krige b (system krig) (g_lat x, g_lon x) (external_drift_data x) False = Inr kr \<and>
               length kr = n_units df \<and>
               columns df' = AList.update ''cond_krig'' kr (columns df) \<and>
               (''cond_krig'' \<notin> fst ` set (columns df) \<longrightarrow>
                  columns df' = columns df @ [(''cond_krig'', kr)])) \<and>
         (\<forall>name. name \<noteq> ''cond_krig'' \<longrightarrow> getitem df' name = getitem df name)"
    by blast
  with tgt show ?thesis by blast
qed

theorem only_cond_krig_is_assigned_witness:
  "getitem (\<lparr>geometry = [(- 100, 40), (- 101, 41), (- 102, 42)],
             columns = [(''y'', [Some 5, None, Some 7]), (''d1'', [Some 1, Some 2, Some 3]),
                        (''d2'', [Some 4, Some 5, Some 6]),
                        (''cond_krig'', [Some 5, Some 0, Some 7])]\<rparr>
            :: (real \<times> real) geoframe) ''d1''
   = getitem units3 ''d1''"
proof -
  have n: "''d1'' \<noteq> ''cond_krig''" by simp
  from only_cond_krig_is_assigned
         [OF demo_geokrig_units3 demo_extract_units3 demo_compute_units3,
          THEN conjunct2, THEN conjunct2, THEN conjunct1, rule_format, OF n]
  show ?thesis .
qed

subsection \<open>C8\<close>

text \<open>
  C8 (the source departs from the claim). The centroids' \<open>x\<close> is the longitude-like
  coordinate and \<open>y\<close> the latitude-like one. The source binds \<open>lat\<close> to \<open>centroid.x\<close> and
  \<open>lon\<close> to \<open>centroid.y\<close> (lines 63, 64 and again 68, 69) and passes \<open>(lat, lon)\<close> with
  \<open>latlon=True\<close>. On the three-unit table, whose first centroid is \<open>x = -100\<close>, \<open>y = 40\<close>,
  the latitude slot receives \<open>-100\<close> and the longitude slot \<open>40\<close>.
\<close>

theorem latitude_slot_receives_x:
  "centroid demo (geometry units3 ! 0) = (- 100, 40) \<and>
   extract_data (centroid demo) units3 ''y'' ''d1'' None =
   Inr \<lparr>lat = [- 100, - 102], lon = [40, 42], int_data = [Some 5, Some 7],
        g_lat = [- 100, - 101, - 102], g_lon = [40, 41, 42],
        external_drift_data = Arr1 [Some 1, Some 2, Some 3],
        external_drift_at_abortion = Arr1 [Some 1, Some 3]\<rparr>"
  using demo_extract_units3 by (simp add: demo_def units3_def)

subsection \<open>C9\<close>

text \<open>
  C9. With two drift covariates, on a table that has the named columns, the drift array
  for all locations is the first-named column stacked on the second-named one, the drift
  array for the observations is the same two columns, in the same order, restricted to the
  observed rows; each row of the former has one value per table row, in table order, like
  the location arrays \<open>g_lat\<close>, \<open>g_lon\<close>; and entry \<open>j\<close> of the latter, of \<open>lat\<close>, \<open>lon\<close> and of
  the observed values all belong to the same table row, the \<open>j\<close>-th observed one.
\<close>

theorem drift_arrays_stacked_and_aligned:
  assumes "wf_frame df"
    and "getitem df variable = Inr target"
    and "getitem df drift1 = Inr c1" and "getitem df d2 = Inr c2"
    and "extract_data cen df variable drift1 (Some d2) = Inr x"
  shows "external_drift_data x = Arr2 [c1, c2] \<and>
         external_drift_at_abortion x =
           Arr2 [map (\<lambda>i. c1 ! i) (observed_rows target), map (\<lambda>i. c2 ! i) (observed_rows target)] \<and>
         length c1 = n_units df \<and> length c2 = n_units df \<and>
         g_lat x = map (\<lambda>g. fst (cen g)) (geometry df) \<and>
         g_lon x = map (\<lambda>g. snd (cen g)) (geometry df) \<and>
         lat x = map (\<lambda>i. fst (cen (geometry df ! i))) (observed_rows target) \<and>
         lon x = map (\<lambda>i. snd (cen (geometry df ! i))) (observed_rows target) \<and>
         int_data x = map (\<lambda>i. target ! i) (observed_rows target)"
proof -
  from assms(1) assms(2,3,4) have len: "length target = n_units df" "length c1 = n_units df"
    "length c2 = n_units df" by (simp_all add: getitem_length)
  then have g: "length (geometry df) = length target" by (simp add: n_units_def)
  from extract_data_Inr [OF assms(5)] assms(2,3,4) have x:
    "lat x = map (\<lambda>g. fst (cen g)) (boolean_index (notnull target) (geometry df))"
    "lon x = map (\<lambda>g. snd (cen g)) (boolean_index (notnull target) (geometry df))"
    "int_data x = boolean_index (notnull target) target"
    "g_lat x = map (\<lambda>g. fst (cen g)) (geometry df)"
    "g_lon x = map (\<lambda>g. snd (cen g)) (geometry df)"
    "external_drift_data x = Arr2 [c1, c2]"
    "external_drift_at_abortion x =
       Arr2 [boolean_index (notnull target) c1, boolean_index (notnull target) c2]"
    by auto
  have b1: "boolean_index (notnull target) c1 = map (\<lambda>i. c1 ! i) (observed_rows target)"
    using len by (simp only: boolean_index_observed)
  have b2: "boolean_index (notnull target) c2 = map (\<lambda>i. c2 ! i) (observed_rows target)"
    using len by (simp only: boolean_index_observed)
  have b3: "boolean_index (notnull target) target = map (\<lambda>i. target ! i) (observed_rows target)"
    by (simp only: boolean_index_observed)
  have b4: "boolean_index (notnull target) (geometry df)
              = map (\<lambda>i. geometry df ! i) (observed_rows target)"
    using g by (simp only: boolean_index_observed)
  show ?thesis
    unfolding x b1 b2 b3 b4 using len by (simp add: o_def)
qed

theorem drift_arrays_stacked_and_aligned_witness:
  "wf_frame units3 \<and>
   external_drift_data
     \<lparr>lat = [- 100, - 102], lon = [40, 42], int_data = [Some 5, Some 7],
      g_lat = [- 100, - 101, - 102], g_lon = [40, 41, 42],
      external_drift_data = Arr2 [[Some 1, Some 2, Some 3], [Some 4, Some 5, Some 6]],
      external_drift_at_abortion = Arr2 [[Some 1, Some 3], [Some 4, Some 6]]\<rparr>
     = Arr2 [[Some 1, Some 2, Some 3], [Some 4, Some 5, Some 6]] \<and>
   [[Some 1, Some 3], [Some 4, Some (6::real)]] =
     [map (\<lambda>i. [Some 1, Some 2, Some 3] ! i) (observed_rows [Some 5, None, Some 7]),
      map (\<lambda>i. [Some 4, Some 5, Some 6] ! i) (observed_rows [Some 5, None, Some 7])]"
proof -
  have g: "getitem units3 ''y'' = Inr [Some 5, None, Some 7]"
    by (simp add: getitem_def units3_def)
  have d1: "getitem units3 ''d1'' = Inr [Some 1, Some 2, Some 3]"
    by (simp add: getitem_def units3_def)
  have d2: "getitem units3 ''d2'' = Inr [Some 4, Some 5, Some 6]"
    by (simp add: getitem_def units3_def)
  from drift_arrays_stacked_and_aligned [OF wf_units3 g d1 d2 demo_extract2_units3]
  show ?thesis by (simp add: wf_units3)
qed

subsection \<open>C10\<close>

text \<open>
  C10. Whenever \<open>geokrig\<close> raises, whatever the error and the stage, the caller's table is
  as it was before the call, and no table is returned: the column \<open>cond_krig\<close> is assigned
  on line 140 only, after every call that can fail, and an assignment that fails itself
  changes nothing.
\<close>

theorem error_leaves_table_unchanged:
  "snd (geokrig b df variable iterations model drift1 drift2) = Inl e \<Longrightarrow>
   fst (geokrig b df variable iterations model drift1 drift2) = df"
  by (auto simp: geokrig_def split: sum.splits prod.splits)

theorem error_leaves_table_unchanged_witness:
  "snd (geokrig demo units3_nonpositive ''y'' 2 demo_model ''d1'' None) = Inl NumericError \<and>
   fst (geokrig demo units3_nonpositive ''y'' 2 demo_model ''d1'' None) = units3_nonpositive"
proof -
  have e: "snd (geokrig demo units3_nonpositive ''y'' 2 demo_model ''d1'' None) = Inl NumericError"
    by (simp add: demo_geokrig_nonpositive)
  from error_leaves_table_unchanged [OF e] e show ?thesis by blast
qed

end
